theory Spec2Isabelle
  imports Complex_Main
begin

section \<open>Python strings\<close>

text \<open>
  The program is \<^verbatim>\<open>src/app.py\<close>. Python \<^verbatim>\<open>str\<close> values are modelled as \<^typ>\<open>string\<close>
  and the string methods the program calls are written out for ASCII text: a character
  outside ASCII is neither a letter nor white space here, and \<^verbatim>\<open>len\<close> counts \<^typ>\<open>char\<close>s.
\<close>

definition ascii_uppercase :: string where
  "ascii_uppercase = ''ABCDEFGHIJKLMNOPQRSTUVWXYZ''"

definition ascii_lowercase :: string where
  "ascii_lowercase = ''abcdefghijklmnopqrstuvwxyz''"

text \<open>\<^verbatim>\<open>str.isspace\<close> on one ASCII character: tab, LF, VT, FF, CR, FS, GS, RS, US, space.\<close>

definition is_space :: "char \<Rightarrow> bool" where
  "is_space c = (c \<in> set [CHR 0x09, CHR 0x0A, CHR 0x0B, CHR 0x0C, CHR 0x0D,
                             CHR 0x1C, CHR 0x1D, CHR 0x1E, CHR 0x1F, CHR 0x20])"

definition lower_char :: "char \<Rightarrow> char" where
  "lower_char c = (case map_of (zip ascii_uppercase ascii_lowercase) c of
                     Some d \<Rightarrow> d | None \<Rightarrow> c)"

definition upper_char :: "char \<Rightarrow> char" where
  "upper_char c = (case map_of (zip ascii_lowercase ascii_uppercase) c of
                     Some d \<Rightarrow> d | None \<Rightarrow> c)"

text \<open>\<^verbatim>\<open>s.lower()\<close> and \<^verbatim>\<open>s.upper()\<close>.\<close>

definition lower :: "string \<Rightarrow> string" where
  "lower s = map lower_char s"

definition upper :: "string \<Rightarrow> string" where
  "upper s = map upper_char s"

text \<open>
  \<^verbatim>\<open>s.isupper()\<close>: at least one cased character, and no cased character is lower case.
  Digits and punctuation are uncased, so \<^verbatim>\<open>"X9".isupper()\<close> is true.
\<close>

definition isupper :: "string \<Rightarrow> bool" where
  "isupper s = ((\<exists>c \<in> set s. c \<in> set ascii_uppercase) \<and> (\<forall>c \<in> set s. c \<notin> set ascii_lowercase))"

text \<open>\<^verbatim>\<open>s.strip()\<close>.\<close>

definition strip :: "string \<Rightarrow> string" where
  "strip s = rev (dropWhile is_space (rev (dropWhile is_space s)))"

text \<open>\<^verbatim>\<open>s.split(c)\<close> for a one-character separator: empty fields are kept.\<close>

fun split_on :: "char \<Rightarrow> string \<Rightarrow> string list" where
  "split_on c [] = [[]]"
| "split_on c (x # xs) =
     (if x = c then [] # split_on c xs
      else (case split_on c xs of
              p # ps \<Rightarrow> (x # p) # ps
            | [] \<Rightarrow> [[x]]))"

text \<open>\<^verbatim>\<open>s.replace(a, b)\<close> for single characters.\<close>

definition replace_char :: "char \<Rightarrow> char \<Rightarrow> string \<Rightarrow> string" where
  "replace_char a b s = map (\<lambda>c. if c = a then b else c) s"

text \<open>\<^verbatim>\<open>s.startswith(p)\<close> and the substring test \<^verbatim>\<open>p in s\<close>.\<close>

fun startswith :: "string \<Rightarrow> string \<Rightarrow> bool" where
  "startswith [] s = True"
| "startswith (p # ps) [] = False"
| "startswith (p # ps) (c # cs) = (p = c \<and> startswith ps cs)"

fun str_in :: "string \<Rightarrow> string \<Rightarrow> bool" where
  "str_in p [] = (p = [])"
| "str_in p (c # cs) = (startswith p (c # cs) \<or> str_in p cs)"

text \<open>
  \<^verbatim>\<open>s.replace(old, '')\<close> for a non-empty \<^verbatim>\<open>old\<close>: every occurrence, found left to right
  without overlap, is removed.
\<close>

function remove_all :: "string \<Rightarrow> string \<Rightarrow> string" where
  "remove_all old [] = []"
| "remove_all old (c # cs) =
     (if old \<noteq> [] \<and> startswith old (c # cs)
      then remove_all old (drop (length old) (c # cs))
      else c # remove_all old cs)"
  by pat_completeness auto
termination
  by (relation "measure (\<lambda>(old, s). length s)") (auto simp: neq_Nil_conv)

section \<open>The excluded states\<close>

text \<open>\<^verbatim>\<open>EXCLUDED_STATES\<close> (lines 15 to 18), a Python set of fourteen strings.\<close>

definition EXCLUDED_STATES :: "string set" where
  "EXCLUDED_STATES =
     {''HI'', ''AK'', ''FL'', ''NY'', ''NJ'', ''ND'', ''SD'',
      ''Hawaii'', ''Alaska'', ''Florida'', ''New York'', ''New Jersey'',
      ''North Dakota'', ''South Dakota''}"

text \<open>
  The set as the literal lists it. Python iterates a set of strings in an order that
  depends on the process's hash seed, so the functions below take the iteration order as
  a list \<open>order\<close>; it is meant to enumerate \<^const>\<open>EXCLUDED_STATES\<close>.
\<close>

definition literal_order :: "string list" where
  "literal_order =
     [''HI'', ''AK'', ''FL'', ''NY'', ''NJ'', ''ND'', ''SD'',
      ''Hawaii'', ''Alaska'', ''Florida'', ''New York'', ''New Jersey'',
      ''North Dakota'', ''South Dakota'']"

text \<open>
  Lines 38 to 46 of \<^verbatim>\<open>get_state_from_coords\<close>: the loop over the parts of a metro name.
  Each part is stripped; a part of length two that \<^verbatim>\<open>isupper()\<close> is returned; otherwise
  the first member of \<^verbatim>\<open>EXCLUDED_STATES\<close> (in iteration order) that occurs in the part is
  returned; otherwise the next part is tried.
\<close>

fun scan_parts :: "string list \<Rightarrow> string list \<Rightarrow> string option" where
  "scan_parts order [] = None"
| "scan_parts order (part # parts) =
     (let part = strip part in
        if length part = 2 \<and> isupper part then Some part
        else (case find (\<lambda>state. str_in state part) order of
                Some state \<Rightarrow> Some state
              | None \<Rightarrow> scan_parts order parts))"

text \<open>Lines 35 to 46: \<^verbatim>\<open>parts = metro_name.replace('-', ',').split(',')\<close>, then the loop.\<close>

definition state_from_name :: "string list \<Rightarrow> string \<Rightarrow> string option" where
  "state_from_name order metro_name =
     scan_parts order (split_on CHR '','' (replace_char CHR ''-'' CHR '','' metro_name))"

text \<open>
  \<^verbatim>\<open>is_excluded_state\<close> (lines 52 to 56). \<^verbatim>\<open>not state\<close> holds for \<^verbatim>\<open>None\<close> and for the
  empty string.
\<close>

definition is_excluded_state :: "string option \<Rightarrow> bool" where
  "is_excluded_state state =
     (case state of
        None \<Rightarrow> False
      | Some s \<Rightarrow> if s = [] then False
                  else s \<in> EXCLUDED_STATES \<or> upper s \<in> EXCLUDED_STATES)"

section \<open>Values, exceptions and the external libraries\<close>

text \<open>
  A Python exception that the program's handlers tell apart: \<^verbatim>\<open>except ValueError\<close> comes
  before \<^verbatim>\<open>except Exception\<close> in \<^verbatim>\<open>check_proximity\<close>. The string is \<^verbatim>\<open>str(e)\<close>.
\<close>

datatype py_exn = ValueError string | TypeError string | OtherException string

fun exn_str :: "py_exn \<Rightarrow> string" where
  "exn_str (ValueError m) = m"
| "exn_str (TypeError m) = m"
| "exn_str (OtherException m) = m"

text \<open>Sequencing of steps that may raise: the first exception ends the block.\<close>

definition and_then :: "py_exn + 'a \<Rightarrow> ('a \<Rightarrow> py_exn + 'b) \<Rightarrow> py_exn + 'b" where
  "and_then m f = (case m of Inl e \<Rightarrow> Inl e | Inr v \<Rightarrow> f v)"

text \<open>
  A Python \<^verbatim>\<open>float\<close> as the query parameters hold it: \<^verbatim>\<open>float("inf")\<close>, \<^verbatim>\<open>float("-inf")\<close>
  and \<^verbatim>\<open>float("nan")\<close> are values, not errors. A finite float is held as the real number
  it is exactly. Arithmetic on floats rounds, so the product
  \<^verbatim>\<open>max_distance_miles * 1609.34\<close> of line 495 and the quotients \<^verbatim>\<open>distance / 1609.34\<close> of
  lines 531, 560 and 581 are not computed on reals: they are operations of the runtime
  (\<open>float_mul\<close> and \<open>float_div\<close> below).
\<close>

datatype pyfloat = Finite real | PosInf | NegInf | NaN

text \<open>
  The comparison \<^verbatim>\<open>distance <= max_distance_meters\<close> (line 542) of a finite distance
  with the radius. Comparing two floats is exact; every comparison with NaN is false.
\<close>

fun float_le :: "real \<Rightarrow> pyfloat \<Rightarrow> bool" where
  "float_le d (Finite m) = (d \<le> m)"
| "float_le d PosInf = True"
| "float_le d NegInf = False"
| "float_le d NaN = False"

text \<open>The strict comparison \<^verbatim>\<open>distance > max_distance_meters\<close>.\<close>

fun float_gt :: "real \<Rightarrow> pyfloat \<Rightarrow> bool" where
  "float_gt d (Finite m) = (d > m)"
| "float_gt d PosInf = False"
| "float_gt d NegInf = True"
| "float_gt d NaN = False"

text \<open>What \<^verbatim>\<open>jsonify\<close> serialises; a Python dict is the list of its items in the order written.\<close>

datatype json = JBool bool | JNum real | JStr string | JList "json list" | JObj "(string \<times> json) list"

text \<open>The value under a key of a JSON object, if the key is present.\<close>

fun json_get :: "string \<Rightarrow> json \<Rightarrow> json option" where
  "json_get k (JObj kvs) = map_of kvs k"
| "json_get k _ = None"

text \<open>An HTTP response: the status code and the JSON body.\<close>

type_synonym response = "nat \<times> json"

text \<open>A row of the GeoDataFrame: the columns the program reads.\<close>

record 'g row =
  NAME :: string
  CBSAFP :: string
  geometry :: 'g

text \<open>
  What the program calls and does not define, taken as parameters: the builtins
  \<^verbatim>\<open>float\<close>, \<^verbatim>\<open>round\<close> and \<^verbatim>\<open>str\<close>, the iteration order of the set \<^verbatim>\<open>EXCLUDED_STATES\<close>, and
  the geometry operations of geopandas and shapely. \<open>'g\<close> is a geometry, \<open>'p\<close> a point in
  EPSG:3857. A geometry operation either raises or returns; a distance it returns is a
  finite number.
  \<^item> \<open>py_float s\<close> is \<^verbatim>\<open>float(s)\<close> for a string; \<open>None\<close> is its \<^verbatim>\<open>ValueError\<close>;
  \<^item> \<open>float_mul x c\<close> is the float \<^verbatim>\<open>x * c\<close> where the source writes \<open>c\<close> as a decimal
    literal: the product of \<open>x\<close> and the double the literal denotes, rounded to a double
    (or an infinity, or NaN);
  \<^item> \<open>float_div d c\<close> is the float \<^verbatim>\<open>d / c\<close> for a finite distance \<open>d\<close> and a decimal
    literal \<open>c\<close>, likewise rounded;
  \<^item> \<open>py_round2 x\<close> is \<^verbatim>\<open>round(x, 2)\<close>; \<open>py_str x\<close> is how an f-string prints a float;
  \<^item> \<open>set_iter\<close> is the order in which \<^verbatim>\<open>for state in EXCLUDED_STATES\<close> runs;
  \<^item> \<open>to_crs_3857\<close>, \<open>to_crs_4326\<close> reproject one geometry of a frame;
  \<^item> \<open>project_point (lon, lat)\<close> is
    \<^verbatim>\<open>gpd.GeoSeries([Point(lon, lat)], crs='EPSG:4326').to_crs('EPSG:3857').iloc[0]\<close>;
  \<^item> \<open>contains g p\<close> is \<^verbatim>\<open>g.contains(p)\<close>, \<open>distance g p\<close> is \<^verbatim>\<open>g.distance(p)\<close>;
  \<^item> \<open>nearest_points (lon, lat) g\<close> is the second point, as \<open>(x, y)\<close>, of
    \<^verbatim>\<open>nearest_points(Point(lon, lat), g)\<close>.
\<close>

record ('g, 'p) ext =
  py_float :: "string \<Rightarrow> pyfloat option"
  float_mul :: "pyfloat \<Rightarrow> real \<Rightarrow> pyfloat"
  float_div :: "real \<Rightarrow> real \<Rightarrow> real"
  py_round2 :: "real \<Rightarrow> real"
  py_str :: "pyfloat \<Rightarrow> string"
  set_iter :: "string list"
  to_crs_3857 :: "'g \<Rightarrow> 'g"
  to_crs_4326 :: "'g \<Rightarrow> 'g"
  project_point :: "pyfloat \<times> pyfloat \<Rightarrow> py_exn + 'p"
  contains :: "'g \<Rightarrow> 'p \<Rightarrow> py_exn + bool"
  distance :: "'g \<Rightarrow> 'p \<Rightarrow> py_exn + real"
  nearest_points :: "pyfloat \<times> pyfloat \<Rightarrow> 'g \<Rightarrow> py_exn + real \<times> real"

section \<open>The state of a containing metro\<close>

text \<open>
  The loop of lines 32 to 47 over the rows of \<^verbatim>\<open>metro_data\<close>: the first row whose geometry
  contains the point decides (the function returns inside the loop over its parts, or
  reaches \<^verbatim>\<open>break\<close>); a row that does not contain the point is skipped; an exception
  leaves the loop.
\<close>

fun scan_rows :: "('g, 'p) ext \<Rightarrow> 'p \<Rightarrow> 'g row list \<Rightarrow> py_exn + string option" where
  "scan_rows ext point_proj [] = Inr None"
| "scan_rows ext point_proj (row # rows) =
     (case contains ext (geometry row) point_proj of
        Inl e \<Rightarrow> Inl e
      | Inr True \<Rightarrow> Inr (state_from_name (set_iter ext) (NAME row))
      | Inr False \<Rightarrow> scan_rows ext point_proj rows)"

text \<open>The body of the \<^verbatim>\<open>try\<close> block of \<^verbatim>\<open>get_state_from_coords\<close> (lines 25 to 47).\<close>

definition get_state_try ::
  "('g, 'p) ext \<Rightarrow> 'g row list option \<Rightarrow> pyfloat \<Rightarrow> pyfloat \<Rightarrow> py_exn + string option" where
  "get_state_try ext metro_data lat lon =
     (case metro_data of
        None \<Rightarrow> Inr None
      | Some rows \<Rightarrow>
          and_then (project_point ext (lon, lat)) (\<lambda>point_proj.
          scan_rows ext point_proj rows))"

text \<open>
  \<^verbatim>\<open>get_state_from_coords\<close> (lines 20 to 50): an exception in the block is printed and the
  function returns \<^verbatim>\<open>None\<close>.
\<close>

definition get_state_from_coords ::
  "('g, 'p) ext \<Rightarrow> 'g row list option \<Rightarrow> pyfloat \<Rightarrow> pyfloat \<Rightarrow> string option" where
  "get_state_from_coords ext metro_data lat lon =
     (case get_state_try ext metro_data lat lon of
        Inl e \<Rightarrow> None
      | Inr state \<Rightarrow> state)"

section \<open>The proximity query\<close>

text \<open>
  A row of \<^verbatim>\<open>metro_working\<close>: its index label, the row of \<^verbatim>\<open>metro_data\<close>, and the value
  of the added column \<^verbatim>\<open>distance\<close>. The labels of a frame are unique; the model labels a
  row by its position in \<^verbatim>\<open>metro_data\<close>.
\<close>

type_synonym 'g dist_row = "nat \<times> 'g row \<times> real"

text \<open>\<^verbatim>\<open>metro_working.geometry.distance(point.iloc[0])\<close> (line 527), row by row.\<close>

fun distance_column :: "('g, 'p) ext \<Rightarrow> 'p \<Rightarrow> 'g row list \<Rightarrow> py_exn + real list" where
  "distance_column ext point [] = Inr []"
| "distance_column ext point (row # rows) =
     and_then (distance ext (geometry row) point) (\<lambda>d.
     and_then (distance_column ext point rows) (\<lambda>ds.
     Inr (d # ds)))"

definition with_distance :: "'g row list \<Rightarrow> real list \<Rightarrow> 'g dist_row list" where
  "with_distance rows ds = zip [0..<length rows] (zip rows ds)"

text \<open>
  \<^verbatim>\<open>frame.loc[frame['distance'].idxmin()]\<close> (lines 530 and 559): pandas' \<^verbatim>\<open>idxmin\<close> gives
  the label of the first occurrence of the minimum and raises \<^verbatim>\<open>ValueError\<close> on an empty
  column; \<^verbatim>\<open>loc\<close> gives the row of that label.
\<close>

fun first_min :: "'g dist_row \<Rightarrow> 'g dist_row list \<Rightarrow> 'g dist_row" where
  "first_min best [] = best"
| "first_min best (x # xs) =
     first_min (if snd (snd x) < snd (snd best) then x else best) xs"

definition loc_idxmin :: "'g dist_row list \<Rightarrow> py_exn + 'g dist_row" where
  "loc_idxmin frame =
     (case frame of
        [] \<Rightarrow> Inl (ValueError ''attempt to get argmin of an empty sequence'')
      | x # xs \<Rightarrow> Inr (first_min x xs))"

text \<open>\<^verbatim>\<open>metro_working[metro_working['distance'] <= max_distance_meters]\<close> (line 542).\<close>

definition nearby :: "pyfloat \<Rightarrow> 'g dist_row list \<Rightarrow> 'g dist_row list" where
  "nearby max_distance_meters frame =
     filter (\<lambda>(idx, row, d). float_le d max_distance_meters) frame"

text \<open>The entries of \<^verbatim>\<open>all_nearby_metros\<close> (lines 578 to 584).\<close>

definition metro_info :: "('g, 'p) ext \<Rightarrow> 'g dist_row \<Rightarrow> json" where
  "metro_info ext r =
     (case r of (idx, row, d) \<Rightarrow>
        JObj [(''name'', JStr (NAME row)),
              (''distance_miles'', JNum (py_round2 ext (float_div ext d 1609.34))),
              (''cbsa_code'', JStr (CBSAFP row))])"

text \<open>
  Lines 518 to 586 of \<^verbatim>\<open>check_proximity\<close>, from the projection of the point to the last
  \<^verbatim>\<open>return\<close>. \<^verbatim>\<open>is_inside_nearest\<close> is computed and not used, as in the source.
\<close>

definition proximity ::
  "('g, 'p) ext \<Rightarrow> 'g row list \<Rightarrow> pyfloat \<Rightarrow> pyfloat \<Rightarrow> pyfloat \<Rightarrow> pyfloat
     \<Rightarrow> py_exn + response" where
  "proximity ext metro_data lat lon max_distance_miles max_distance_meters =
     and_then (project_point ext (lon, lat)) (\<lambda>point.
     and_then (distance_column ext point metro_data) (\<lambda>ds.
     let metro_working = with_distance metro_data ds in
     and_then (loc_idxmin metro_working) (\<lambda>(idx_overall, nearest_overall, d_overall).
     let nearest_distance_miles = float_div ext d_overall 1609.34 in
     and_then (contains ext (geometry nearest_overall) point) (\<lambda>is_inside_nearest.
     let nearest_geom_wgs84 = to_crs_4326 ext (geometry nearest_overall) in
     and_then (nearest_points ext (lon, lat) nearest_geom_wgs84) (\<lambda>(closest_x, closest_y).
     let nearest_edge_coords = JList [JNum closest_y, JNum closest_x];
         nearby_metros = nearby max_distance_meters metro_working in
     if length nearby_metros = 0 then
       Inr (200, JObj
         [(''within_range'', JBool False),
          (''is_inside_metro'', JBool False),
          (''nearest_metro'', JObj
             [(''name'', JStr (NAME nearest_overall)),
              (''cbsa_code'', JStr (CBSAFP nearest_overall)),
              (''distance_to_edge_miles'', JNum (py_round2 ext nearest_distance_miles)),
              (''edge_coords'', nearest_edge_coords)]),
          (''message'', JStr (''Nearest metro is ''
             @ py_str ext (Finite (py_round2 ext nearest_distance_miles))
             @ '' miles away (outside '' @ py_str ext max_distance_miles
             @ '' mile range)''))])
     else
       and_then (loc_idxmin nearby_metros) (\<lambda>(idx, nearest, d).
       let distance_miles = float_div ext d 1609.34 in
       and_then (contains ext (geometry nearest) point) (\<lambda>is_inside.
       Inr (200, JObj
         [(''within_range'', JBool True),
          (''is_inside_metro'', JBool is_inside),
          (''nearest_metro'', JObj
             [(''name'', JStr (NAME nearest)),
              (''cbsa_code'', JStr (CBSAFP nearest)),
              (''distance_to_edge_miles'',
                 JNum (if is_inside then 0 else py_round2 ext distance_miles)),
              (''edge_coords'', nearest_edge_coords)]),
          (''all_nearby_metros'', JList (map (metro_info ext) nearby_metros))]))))))))"

text \<open>
  \<^verbatim>\<open>float(request.args.get(name))\<close> (lines 490 and 491): a missing parameter is \<^verbatim>\<open>None\<close>
  and \<^verbatim>\<open>float(None)\<close> raises \<^verbatim>\<open>TypeError\<close>; a string that is no number raises
  \<^verbatim>\<open>ValueError\<close>.
\<close>

definition float_arg :: "('g, 'p) ext \<Rightarrow> string option \<Rightarrow> py_exn + pyfloat" where
  "float_arg ext v =
     (case v of
        None \<Rightarrow> Inl (TypeError (''float() argument must be a string or a real number, not ''
                  @ [CHR 0x27] @ ''NoneType'' @ [CHR 0x27]))
      | Some s \<Rightarrow>
          (case py_float ext s of
             None \<Rightarrow> Inl (ValueError ''could not convert string to float'')
           | Some x \<Rightarrow> Inr x))"

text \<open>\<^verbatim>\<open>float(request.args.get('max_distance', 50))\<close> (line 492).\<close>

definition float_arg_default :: "('g, 'p) ext \<Rightarrow> string option \<Rightarrow> real \<Rightarrow> py_exn + pyfloat" where
  "float_arg_default ext v dflt =
     (case v of
        None \<Rightarrow> Inr (Finite dflt)
      | Some s \<Rightarrow> float_arg ext (Some s))"

text \<open>The JSON of the early return of lines 508 to 513.\<close>

definition excluded_json :: "string \<Rightarrow> json" where
  "excluded_json state =
     JObj [(''excluded'', JBool True),
           (''excluded_state'', JStr state),
           (''within_range'', JBool False),
           (''message'', JStr (''We do not lend in '' @ state))]"

text \<open>
  The \<^verbatim>\<open>try\<close> block of \<^verbatim>\<open>check_proximity\<close> (lines 489 to 586). \<open>args\<close> is
  \<^verbatim>\<open>request.args\<close> and \<open>metro_data\<close> the global of that name. The inner \<^verbatim>\<open>try\<close> of lines
  503 to 516 has nothing to catch: \<^verbatim>\<open>get_state_from_coords\<close> catches its own exceptions.
  \<^verbatim>\<open>if state and ...\<close> is false for \<^verbatim>\<open>None\<close> and for the empty string. What the query
  prints is left out.
\<close>

definition check_proximity_try ::
  "('g, 'p) ext \<Rightarrow> 'g row list option \<Rightarrow> (string \<Rightarrow> string option) \<Rightarrow> py_exn + response" where
  "check_proximity_try ext metro_data args =
     and_then (float_arg ext (args ''lat'')) (\<lambda>lat.
     and_then (float_arg ext (args ''lon'')) (\<lambda>lon.
     and_then (float_arg_default ext (args ''max_distance'') 50) (\<lambda>max_distance_miles.
     let max_distance_meters = float_mul ext max_distance_miles 1609.34 in
     case metro_data of
       None \<Rightarrow> Inr (500, JObj [(''error'', JStr ''Metro data not loaded'')])
     | Some rows \<Rightarrow>
         (case get_state_from_coords ext metro_data lat lon of
            Some state \<Rightarrow>
              if state \<noteq> [] \<and> is_excluded_state (Some state)
              then Inr (200, excluded_json state)
              else proximity ext rows lat lon max_distance_miles max_distance_meters
          | None \<Rightarrow> proximity ext rows lat lon max_distance_miles max_distance_meters))))"

text \<open>
  \<^verbatim>\<open>check_proximity\<close> (lines 479 to 595) with its handlers: a \<^verbatim>\<open>ValueError\<close> from anywhere
  in the block gives status 400, any other exception status 500 with \<^verbatim>\<open>str(e)\<close>.
\<close>

definition handlers :: "py_exn + response \<Rightarrow> response" where
  "handlers outcome =
     (case outcome of
        Inr resp \<Rightarrow> resp
      | Inl (ValueError m) \<Rightarrow>
          (400, JObj [(''error'', JStr ''Invalid parameters. Provide lat, lon as numbers.'')])
      | Inl e \<Rightarrow> (500, JObj [(''error'', JStr (exn_str e))]))"

definition check_proximity ::
  "('g, 'p) ext \<Rightarrow> 'g row list option \<Rightarrow> (string \<Rightarrow> string option) \<Rightarrow> response" where
  "check_proximity ext metro_data args = handlers (check_proximity_try ext metro_data args)"

section \<open>Loading the metro data\<close>

text \<open>
  The two files \<^verbatim>\<open>load_metro_data\<close> reads, at their fixed paths: \<open>None\<close> when
  \<^verbatim>\<open>os.path.exists\<close> is false, otherwise the rows \<^verbatim>\<open>gpd.read_file\<close> returns and the lines
  of \<^verbatim>\<open>target_metros.txt\<close>. A file that exists is taken to be readable.
\<close>

record 'g files =
  shapefile :: "'g row list option"
  target_metros :: "string list option"

text \<open>What \<^verbatim>\<open>load_metro_data\<close> prints, one event for each \<^verbatim>\<open>print\<close>.\<close>

datatype log_event =
    LoadingData
  | LoadedTargets nat
  | Filtered nat
  | NoFilter nat
  | ShapefileNotFound

text \<open>The process state: the global \<^verbatim>\<open>metro_data\<close> and what has been printed so far.\<close>

record 'g app_state =
  metro_data :: "'g row list option"
  stdout :: "log_event list"

definition print :: "log_event \<Rightarrow> 'g app_state \<Rightarrow> 'g app_state" where
  "print ev s = s\<lparr>stdout := stdout s @ [ev]\<rparr>"

text \<open>
  Lines 77 to 83: the loop over the lines of the target list, adding to the set
  \<^verbatim>\<open>target_names\<close> (a list without repetition here).
\<close>

fun read_targets :: "string list \<Rightarrow> string list \<Rightarrow> string list" where
  "read_targets [] target_names = target_names"
| "read_targets (line # lines) target_names =
     (let name = strip line in
        read_targets lines
          (if name \<noteq> [] \<and> name \<notin> set [''Other'', ''Rural'']
           then List.insert name target_names else target_names))"

text \<open>\<^verbatim>\<open>s.split(',')[0]\<close>: \<^verbatim>\<open>split\<close> never returns an empty list.\<close>

definition first_field :: "string \<Rightarrow> string" where
  "first_field s = (case split_on CHR '','' s of [] \<Rightarrow> [] | p # ps \<Rightarrow> p)"

text \<open>Lines 94 and 96: the main part of a target name.\<close>

definition target_main_of :: "string \<Rightarrow> string" where
  "target_main_of target =
     (let target_main = strip (lower (first_field target)) in
        strip (remove_all '' msa'' target_main))"

text \<open>\<^verbatim>\<open>matches_target\<close> (lines 90 to 99); the first argument is \<^verbatim>\<open>target_names\<close>.\<close>

fun matches_target :: "string list \<Rightarrow> string \<Rightarrow> bool" where
  "matches_target [] census_name = False"
| "matches_target (target # targets) census_name =
     (let census_name_clean = lower census_name;
          target_main = target_main_of target in
        if str_in target_main census_name_clean then True
        else matches_target targets census_name)"

text \<open>\<^verbatim>\<open>frame.to_crs('EPSG:3857')\<close> (line 108) on the rows of a frame.\<close>

definition frame_to_crs_3857 :: "('g, 'p) ext \<Rightarrow> 'g row list \<Rightarrow> 'g row list" where
  "frame_to_crs_3857 ext rows = map (\<lambda>r. r\<lparr>geometry := to_crs_3857 ext (geometry r)\<rparr>) rows"

text \<open>\<^verbatim>\<open>load_metro_data\<close> (lines 64 to 110).\<close>

definition load_metro_data :: "('g, 'p) ext \<Rightarrow> 'g files \<Rightarrow> 'g app_state \<Rightarrow> 'g app_state" where
  "load_metro_data ext fs s =
     (case shapefile fs of
        Some all_metro_data \<Rightarrow>
          (let s1 = print LoadingData s;
               target_names = (case target_metros fs of
                                 Some lines \<Rightarrow> read_targets lines []
                               | None \<Rightarrow> []);
               s2 = (case target_metros fs of
                       Some lines \<Rightarrow> print (LoadedTargets (length target_names)) s1
                     | None \<Rightarrow> s1);
               kept = (if target_names \<noteq> []
                       then filter (\<lambda>r. matches_target target_names (NAME r)) all_metro_data
                       else all_metro_data);
               s3 = (if target_names \<noteq> []
                     then print (Filtered (length kept)) s2
                     else print (NoFilter (length kept)) s2)
           in s3\<lparr>metro_data := Some (frame_to_crs_3857 ext kept)\<rparr>)
      | None \<Rightarrow> print ShapefileNotFound s)"

text \<open>\<^verbatim>\<open>ensure_metro_data_loaded\<close> (lines 58 to 62).\<close>

definition ensure_metro_data_loaded ::
  "('g, 'p) ext \<Rightarrow> 'g files \<Rightarrow> 'g app_state \<Rightarrow> 'g app_state" where
  "ensure_metro_data_loaded ext fs s =
     (if metro_data s = None then load_metro_data ext fs s else s)"

section \<open>The allow-list rule as the specification words it\<close>

text \<open>
  The specification's reading of the filter, kept apart from \<^const>\<open>matches_target\<close> so that
  the two can be compared: a name is lowercased, a trailing area-type suffix
  (\<^verbatim>\<open>" msa"\<close>) is stripped, the text before the first comma is taken; a record is kept
  when its name, so processed, is a substring of an allow-list entry processed the same
  way.
\<close>

definition spec_normalise :: "string \<Rightarrow> string" where
  "spec_normalise name =
     (let l = lower name;
          l' = (if startswith (rev '' msa'') (rev l) then take (length l - 4) l else l)
      in first_field l')"

definition spec_retained :: "string list \<Rightarrow> string \<Rightarrow> bool" where
  "spec_retained allow_list name =
     list_ex (\<lambda>entry. str_in (spec_normalise name) (spec_normalise entry)) allow_list"

section \<open>Concrete inputs\<close>

text \<open>
  A small world on which the definitions are run. Geometries are numbered; for the one
  query point of an example, \<open>inside g\<close> and \<open>dist_of g\<close> are what shapely answers for
  geometry \<open>g\<close>. \<open>demo_float\<close> lists \<^verbatim>\<open>float(s)\<close> for the strings the examples use;
  \<open>exact_mul\<close> is the product by a positive factor where it needs no rounding, and the
  quotients of the examples need none either;
  \<^verbatim>\<open>round(x, 2)\<close> is to the nearest hundredth (the examples have no ties).
\<close>

fun exact_mul :: "pyfloat \<Rightarrow> real \<Rightarrow> pyfloat" where
  "exact_mul (Finite m) c = Finite (m * c)"
| "exact_mul PosInf c = PosInf"
| "exact_mul NegInf c = NegInf"
| "exact_mul NaN c = NaN"

definition demo_float :: "string \<Rightarrow> pyfloat option" where
  "demo_float s =
     map_of [(''25.76'', Finite 25.76), (''-80.19'', Finite (-80.19)),
             (''30.27'', Finite 30.27), (''-97.74'', Finite (-97.74)),
             (''50'', Finite 50), (''-1'', Finite (-1)), (''300'', Finite 300),
             (''27'', Finite 27),
             (''inf'', PosInf), (''nan'', NaN)] s"

definition demo_ext ::
  "(nat \<Rightarrow> py_exn + bool) \<Rightarrow> (nat \<Rightarrow> py_exn + real) \<Rightarrow> (nat, pyfloat \<times> pyfloat) ext" where
  "demo_ext inside dist_of =
     \<lparr>py_float = demo_float,
      float_mul = exact_mul,
      float_div = (\<lambda>d c. d / c),
      py_round2 = (\<lambda>x. of_int (round (x * 100)) / 100),
      py_str = (\<lambda>x. ''#''),
      set_iter = literal_order,
      to_crs_3857 = (\<lambda>g. g),
      to_crs_4326 = (\<lambda>g. g),
      project_point = Inr,
      contains = (\<lambda>g p. inside g),
      distance = (\<lambda>g p. dist_of g),
      nearest_points = (\<lambda>p g. Inr (of_nat g, 0))\<rparr>"

definition query :: "string \<Rightarrow> string \<Rightarrow> string option \<Rightarrow> string \<Rightarrow> string option" where
  "query lat lon max_distance k =
     (if k = ''lat'' then Some lat
      else if k = ''lon'' then Some lon
      else if k = ''max_distance'' then max_distance
      else None)"

definition miami :: "nat row" where
  "miami = \<lparr>NAME = ''Miami-Fort Lauderdale-Pompano Beach, FL'', CBSAFP = ''33100'', geometry = 0\<rparr>"

definition austin :: "nat row" where
  "austin = \<lparr>NAME = ''Austin-Round Rock-San Marcos, TX'', CBSAFP = ''12420'', geometry = 1\<rparr>"

definition phoenix :: "nat row" where
  "phoenix = \<lparr>NAME = ''Phoenix-Mesa-Chandler, AZ'', CBSAFP = ''38060'', geometry = 2\<rparr>"

definition jackson :: "nat row" where
  "jackson = \<lparr>NAME = ''Jackson, MS'', CBSAFP = ''27140'', geometry = 3\<rparr>"

text \<open>
  The answers of the geometry engine in the examples. \<open>inside_in gs\<close>: the point is
  inside the geometries \<open>gs\<close> lists and in no other; asking about geometry 3 raises, as
  \<^verbatim>\<open>row.geometry.contains\<close> does for a row without a geometry. \<open>miles_table t\<close>: the
  distance to geometry \<open>g\<close> is the number of miles \<open>t\<close> lists for \<open>g\<close>, in meters; asking
  about a geometry that \<open>t\<close> does not list raises.
\<close>

definition inside_in :: "nat list \<Rightarrow> nat \<Rightarrow> py_exn + bool" where
  "inside_in gs g =
     (if g = 3 then Inl (OtherException ''contains failed'') else Inr (g \<in> set gs))"

definition miles_table :: "(nat \<times> real) list \<Rightarrow> nat \<Rightarrow> py_exn + real" where
  "miles_table t g =
     (case map_of t g of
        Some m \<Rightarrow> Inr (m * 1609.34)
      | None \<Rightarrow> Inl (OtherException ''distance failed''))"

text \<open>
  An example in which the product rounds. \<open>product_27\<close> is the double that
  \<^verbatim>\<open>27.0 * 1609.34\<close> evaluates to, a little above the real number 43452.18;
  \<open>rounded_mul\<close> gives this product its double and is exact elsewhere. \<open>rounding_ext\<close> is
  a world with this product, no containing polygon, and one geometry, number 1, at a
  distance of exactly \<open>product_27\<close> meters.
\<close>

definition product_27 :: real where
  "product_27 = 5972022145276969 / 137438953472"

definition rounded_mul :: "pyfloat \<Rightarrow> real \<Rightarrow> pyfloat" where
  "rounded_mul x c =
     (if x = Finite 27 \<and> c = 1609.34 then Finite product_27 else exact_mul x c)"

definition meters_table :: "(nat \<times> real) list \<Rightarrow> nat \<Rightarrow> py_exn + real" where
  "meters_table t g =
     (case map_of t g of
        Some d \<Rightarrow> Inr d
      | None \<Rightarrow> Inl (OtherException ''distance failed''))"

definition rounding_ext :: "(nat, pyfloat \<times> pyfloat) ext" where
  "rounding_ext =
     (demo_ext (inside_in []) (meters_table [(1, product_27)]))\<lparr>float_mul := rounded_mul\<rparr>"

text \<open>
  States and files for the examples of loading: the state of a process that has loaded
  nothing, a directory without the shapefile, and a directory with a shapefile of three
  rows and a target list of three lines (each line ends with a newline, as read from the
  file).
\<close>

definition fresh :: "nat app_state" where
  "fresh = \<lparr>metro_data = None, stdout = []\<rparr>"

definition no_files :: "nat files" where
  "no_files = \<lparr>shapefile = None, target_metros = None\<rparr>"

definition census_files :: "nat files" where
  "census_files =
     \<lparr>shapefile = Some [jackson, phoenix, austin],
      target_metros = Some [''Jacksonville, FL MSA'' @ [CHR 0x0A],
                            ''Phoenix-Mesa-Chandler, AZ MSA'' @ [CHR 0x0A],
                            ''Other'' @ [CHR 0x0A]]\<rparr>"

section \<open>Auxiliary facts\<close>

lemma and_then_Inr: "and_then (Inr v) f = f v"
  by (simp add: and_then_def)

lemma and_then_Inl: "and_then (Inl e) f = Inl e"
  by (simp add: and_then_def)

lemma float_arg_frame:
  "float_arg (ext\<lparr>distance := d', nearest_points := n'\<rparr>) v = float_arg ext v"
  by (auto simp: float_arg_def split: option.splits)

lemma float_arg_default_frame:
  "float_arg_default (ext\<lparr>distance := d', nearest_points := n'\<rparr>) v x = float_arg_default ext v x"
  by (auto simp: float_arg_default_def float_arg_frame split: option.splits)

lemma scan_rows_first:
  assumes "\<forall>r\<in>set before. contains ext (geometry r) pt = Inr False"
    and "contains ext (geometry region) pt = Inr True"
  shows "scan_rows ext pt (before @ region # after) =
           Inr (state_from_name (set_iter ext) (NAME region))"
  using assms by (induction before) simp_all

lemma EXCLUDED_nonempty: "code \<in> EXCLUDED_STATES \<Longrightarrow> code \<noteq> []"
  by (auto simp: EXCLUDED_STATES_def)

lemmas demo_defs =
  check_proximity_def check_proximity_try_def handlers_def float_arg_def float_arg_default_def
  query_def demo_ext_def demo_float_def and_then_def get_state_from_coords_def
  get_state_try_def inside_in_def miles_table_def phoenix_def austin_def miami_def jackson_def
  proximity_def with_distance_def loc_idxmin_def nearby_def upt_rec excluded_json_def
  is_excluded_state_def EXCLUDED_STATES_def metro_info_def
  state_from_name_def replace_char_def strip_def is_space_def isupper_def
  ascii_uppercase_def ascii_lowercase_def literal_order_def upper_def upper_char_def

lemma proximity_shape:
  assumes "proximity ext rows lat lon miles meters = Inr resp"
  shows "fst resp = 200 \<and> json_get ''excluded'' (snd resp) = None
         \<and> json_get ''error'' (snd resp) = None
         \<and> json_get ''within_range'' (snd resp) \<noteq> None
         \<and> json_get ''nearest_metro'' (snd resp) \<noteq> None"
  using assms unfolding proximity_def and_then_def Let_def
  by (auto split: sum.splits prod.splits if_splits)

lemma handlers_error:
  "json_get ''excluded'' (snd (handlers (Inl e))) = None"
  by (cases e) (simp_all add: handlers_def)

lemma try_excluded_shape:
  assumes "check_proximity_try ext md args = Inr resp"
    and "json_get ''excluded'' (snd resp) \<noteq> None"
  shows "\<exists>state. resp = (200, excluded_json state)"
  using assms unfolding check_proximity_try_def and_then_def Let_def
  by (auto split: sum.splits option.splits if_splits dest!: proximity_shape)

lemma float_le_mono: "float_le d' m \<Longrightarrow> d \<le> d' \<Longrightarrow> float_le d m"
  by (cases m) auto

lemma float_gt_not_le: "float_gt d m \<Longrightarrow> \<not> float_le d m"
  by (cases m) auto

lemma first_min_mem: "first_min best xs \<in> set (best # xs)"
  by (induction xs arbitrary: best) (auto split: if_splits)

lemma first_min_le_best: "snd (snd (first_min best xs)) \<le> snd (snd best)"
proof (induction xs arbitrary: best)
  case Nil
  show ?case by simp
next
  case (Cons x xs)
  show ?case
    using Cons.IH[of "if snd (snd x) < snd (snd best) then x else best"]
    by (auto split: if_splits)
qed

lemma first_min_least: "y \<in> set (best # xs) \<Longrightarrow> snd (snd (first_min best xs)) \<le> snd (snd y)"
proof (induction xs arbitrary: best)
  case Nil
  then show ?case by simp
next
  case (Cons x xs)
  let ?b = "if snd (snd x) < snd (snd best) then x else best"
  from Cons.prems consider "y = best" | "y = x" | "y \<in> set xs" by auto
  then show ?case
  proof cases
    case 1
    have "snd (snd (first_min ?b xs)) \<le> snd (snd ?b)" by (rule first_min_le_best)
    also have "\<dots> \<le> snd (snd best)" by simp
    finally show ?thesis using 1 by simp
  next
    case 2
    have "snd (snd (first_min ?b xs)) \<le> snd (snd ?b)" by (rule first_min_le_best)
    also have "\<dots> \<le> snd (snd x)" by simp
    finally show ?thesis using 2 by simp
  next
    case 3
    then have "snd (snd (first_min ?b xs)) \<le> snd (snd y)"
      using Cons.IH[of ?b] by simp
    then show ?thesis by simp
  qed
qed

lemma first_min_filter_kept:
  assumes "float_le (snd (snd best)) m"
  shows "first_min best (filter (\<lambda>x. float_le (snd (snd x)) m) xs) = first_min best xs"
  using assms
proof (induction xs arbitrary: best)
  case Nil
  show ?case by simp
next
  case (Cons x xs)
  show ?case
  proof (cases "float_le (snd (snd x)) m")
    case True
    then show ?thesis
      using Cons.IH[of "if snd (snd x) < snd (snd best) then x else best"] Cons.prems
      by simp
  next
    case False
    then have "\<not> snd (snd x) < snd (snd best)"
      using Cons.prems float_le_mono[of "snd (snd best)" m "snd (snd x)"] by auto
    then show ?thesis
      using False Cons.IH[of best] Cons.prems by simp
  qed
qed

lemma first_min_filter_dropped:
  assumes "\<not> float_le (snd (snd best)) m"
    and "filter (\<lambda>x. float_le (snd (snd x)) m) xs \<noteq> []"
  shows "loc_idxmin (filter (\<lambda>x. float_le (snd (snd x)) m) xs) = Inr (first_min best xs)"
  using assms
proof (induction xs arbitrary: best)
  case Nil
  then show ?case by simp
next
  case (Cons x xs)
  show ?case
  proof (cases "float_le (snd (snd x)) m")
    case True
    have lt: "snd (snd x) < snd (snd best)"
    proof (rule ccontr)
      assume "\<not> snd (snd x) < snd (snd best)"
      then have "snd (snd best) \<le> snd (snd x)" by simp
      with True have "float_le (snd (snd best)) m" by (rule float_le_mono)
      with Cons.prems(1) show False by simp
    qed
    show ?thesis
      using True lt first_min_filter_kept[OF True, of xs]
      by (simp add: loc_idxmin_def)
  next
    case False
    then show ?thesis
      using Cons.IH[of "if snd (snd x) < snd (snd best) then x else best"] Cons.prems
      by (simp split: if_splits)
  qed
qed

lemma nearby_filter: "nearby m frame = filter (\<lambda>x. float_le (snd (snd x)) m) frame"
  unfolding nearby_def by (rule filter_cong) auto

lemma loc_idxmin_nearby:
  assumes "nearby m frame \<noteq> []"
  shows "loc_idxmin (nearby m frame) = loc_idxmin frame"
proof (cases frame)
  case Nil
  with assms show ?thesis by (simp add: nearby_def)
next
  case (Cons x xs)
  show ?thesis
  proof (cases "float_le (snd (snd x)) m")
    case True
    then show ?thesis
      using Cons first_min_filter_kept[OF True, of xs]
      by (simp add: nearby_filter loc_idxmin_def)
  next
    case False
    then show ?thesis
      using Cons assms first_min_filter_dropped[OF False, of xs]
      by (simp add: nearby_filter loc_idxmin_def)
  qed
qed

lemma loc_idxmin_props:
  assumes "frame \<noteq> []"
  shows "\<exists>x. loc_idxmin frame = Inr x \<and> x \<in> set frame \<and> (\<forall>y\<in>set frame. snd (snd x) \<le> snd (snd y))"
proof (cases frame)
  case Nil
  with assms show ?thesis by simp
next
  case (Cons b xs)
  then show ?thesis
    using first_min_mem[of b xs] first_min_least[of _ b xs]
    by (auto simp: loc_idxmin_def)
qed

lemma distance_column_ok:
  assumes "\<forall>r\<in>set rows. distance ext (geometry r) pt = Inr (dist_of r)"
  shows "distance_column ext pt rows = Inr (map dist_of rows)"
  using assms by (induction rows) (simp_all add: and_then_Inr)

lemma zip_map_same: "zip xs (map f xs) = map (\<lambda>x. (x, f x)) xs"
  by (induction xs) simp_all

lemma with_distance_mem:
  assumes "(i, r, d) \<in> set (with_distance rows (map dist_of rows))"
  shows "r \<in> set rows \<and> d = dist_of r"
proof -
  from assms have "(r, d) \<in> set (zip rows (map dist_of rows))"
    unfolding with_distance_def by (rule set_zip_rightD)
  then show ?thesis by (auto simp: zip_map_same)
qed

lemma with_distance_all:
  assumes "r \<in> set rows"
  shows "\<exists>i. (i, r, dist_of r) \<in> set (with_distance rows (map dist_of rows))"
proof -
  have "map snd (with_distance rows (map dist_of rows)) = map (\<lambda>x. (x, dist_of x)) rows"
    by (simp add: with_distance_def zip_map_same)
  then have "(r, dist_of r) \<in> snd ` set (with_distance rows (map dist_of rows))"
    using assms by (metis (no_types, lifting) image_eqI list.set_map)
  then show ?thesis by force
qed

lemma with_distance_Nil: "with_distance rows (map dist_of rows) = [] \<longleftrightarrow> rows = []"
  by (simp add: with_distance_def)

lemma global_nearest:
  assumes "rows \<noteq> []"
  shows "\<exists>i r. loc_idxmin (with_distance rows (map dist_of rows)) = Inr (i, r, dist_of r)
           \<and> r \<in> set rows \<and> (\<forall>r'\<in>set rows. dist_of r \<le> dist_of r')"
proof -
  let ?frame = "with_distance rows (map dist_of rows)"
  have "?frame \<noteq> []" using assms by (simp add: with_distance_Nil)
  from loc_idxmin_props[OF this] obtain x where
    x: "loc_idxmin ?frame = Inr x" "x \<in> set ?frame" "\<forall>y\<in>set ?frame. snd (snd x) \<le> snd (snd y)"
    by blast
  obtain i r d where xe: "x = (i, r, d)" by (cases x) auto
  with x(2) have rd: "r \<in> set rows" "d = dist_of r"
    using with_distance_mem[of i r d rows dist_of] by auto
  have "dist_of r \<le> dist_of r'" if "r' \<in> set rows" for r'
  proof -
    from with_distance_all[OF that, of dist_of] obtain j where "(j, r', dist_of r') \<in> set ?frame" ..
    with x(3) xe rd show ?thesis by force
  qed
  with x(1) xe rd show ?thesis by blast
qed

lemma proximity_eval:
  assumes pt: "project_point ext (lon, lat) = Inr pt"
    and dist_ok: "\<forall>r\<in>set rows. distance ext (geometry r) pt = Inr (dist_of r)"
    and cont_ok: "\<forall>r\<in>set rows. contains ext (geometry r) pt = Inr (inside_of r)"
    and near_ok: "\<forall>r\<in>set rows.
        nearest_points ext (lon, lat) (to_crs_4326 ext (geometry r)) = Inr (edge_of r)"
    and ne: "rows \<noteq> []"
  shows "\<exists>i r. loc_idxmin (with_distance rows (map dist_of rows)) = Inr (i, r, dist_of r)
      \<and> r \<in> set rows \<and> (\<forall>r'\<in>set rows. dist_of r \<le> dist_of r')
      \<and> proximity ext rows lat lon miles meters =
          Inr (200,
            if nearby meters (with_distance rows (map dist_of rows)) = [] then
              JObj [(''within_range'', JBool False),
                    (''is_inside_metro'', JBool False),
                    (''nearest_metro'', JObj
                       [(''name'', JStr (NAME r)),
                        (''cbsa_code'', JStr (CBSAFP r)),
                        (''distance_to_edge_miles'', JNum (py_round2 ext (float_div ext (dist_of r) 1609.34))),
                        (''edge_coords'', JList [JNum (snd (edge_of r)), JNum (fst (edge_of r))])]),
                    (''message'', JStr (''Nearest metro is ''
                       @ py_str ext (Finite (py_round2 ext (float_div ext (dist_of r) 1609.34)))
                       @ '' miles away (outside '' @ py_str ext miles @ '' mile range)''))]
            else
              JObj [(''within_range'', JBool True),
                    (''is_inside_metro'', JBool (inside_of r)),
                    (''nearest_metro'', JObj
                       [(''name'', JStr (NAME r)),
                        (''cbsa_code'', JStr (CBSAFP r)),
                        (''distance_to_edge_miles'',
                           JNum (if inside_of r then 0 else py_round2 ext (float_div ext (dist_of r) 1609.34))),
                        (''edge_coords'', JList [JNum (snd (edge_of r)), JNum (fst (edge_of r))])]),
                    (''all_nearby_metros'',
                       JList (map (metro_info ext)
                          (nearby meters (with_distance rows (map dist_of rows)))))])"
proof -
  let ?frame = "with_distance rows (map dist_of rows)"
  from global_nearest[OF ne, of dist_of] obtain i r where
    g: "loc_idxmin ?frame = Inr (i, r, dist_of r)" "r \<in> set rows"
       "\<forall>r'\<in>set rows. dist_of r \<le> dist_of r'"
    by blast
  have dc: "distance_column ext pt rows = Inr (map dist_of rows)"
    using dist_ok by (rule distance_column_ok)
  have c: "contains ext (geometry r) pt = Inr (inside_of r)"
    using cont_ok g(2) by simp
  have n: "nearest_points ext (lon, lat) (to_crs_4326 ext (geometry r)) = Inr (edge_of r)"
    using near_ok g(2) by simp
  have nb: "loc_idxmin (nearby meters ?frame) = Inr (i, r, dist_of r)"
    if "nearby meters ?frame \<noteq> []"
    using loc_idxmin_nearby[OF that] g(1) by simp
  have "proximity ext rows lat lon miles meters =
          Inr (200,
            if nearby meters ?frame = [] then
              JObj [(''within_range'', JBool False),
                    (''is_inside_metro'', JBool False),
                    (''nearest_metro'', JObj
                       [(''name'', JStr (NAME r)),
                        (''cbsa_code'', JStr (CBSAFP r)),
                        (''distance_to_edge_miles'', JNum (py_round2 ext (float_div ext (dist_of r) 1609.34))),
                        (''edge_coords'', JList [JNum (snd (edge_of r)), JNum (fst (edge_of r))])]),
                    (''message'', JStr (''Nearest metro is ''
                       @ py_str ext (Finite (py_round2 ext (float_div ext (dist_of r) 1609.34)))
                       @ '' miles away (outside '' @ py_str ext miles @ '' mile range)''))]
            else
              JObj [(''within_range'', JBool True),
                    (''is_inside_metro'', JBool (inside_of r)),
                    (''nearest_metro'', JObj
                       [(''name'', JStr (NAME r)),
                        (''cbsa_code'', JStr (CBSAFP r)),
                        (''distance_to_edge_miles'',
                           JNum (if inside_of r then 0 else py_round2 ext (float_div ext (dist_of r) 1609.34))),
                        (''edge_coords'', JList [JNum (snd (edge_of r)), JNum (fst (edge_of r))])]),
                    (''all_nearby_metros'',
                       JList (map (metro_info ext) (nearby meters ?frame)))])"
  proof (cases "nearby meters ?frame = []")
    case True
    then show ?thesis
      unfolding proximity_def
      by (simp add: pt dc g(1) c n and_then_Inr Let_def case_prod_beta)
  next
    case False
    then show ?thesis
      unfolding proximity_def
      by (simp add: pt dc g(1) c n nb[OF False] and_then_Inr Let_def case_prod_beta)
  qed
  with g show ?thesis by blast
qed

lemma check_proximity_not_excluded:
  assumes lat: "float_arg ext (args ''lat'') = Inr lat"
    and lon: "float_arg ext (args ''lon'') = Inr lon"
    and maxd: "float_arg_default ext (args ''max_distance'') 50 = Inr miles"
    and not_excl: "\<not> is_excluded_state (get_state_from_coords ext (Some rows) lat lon)"
  shows "check_proximity ext (Some rows) args =
           handlers (proximity ext rows lat lon miles (float_mul ext miles 1609.34))"
  using not_excl unfolding check_proximity_def check_proximity_try_def lat lon maxd and_then_Inr Let_def
  by (auto split: option.splits)

lemma nearby_empty:
  assumes "\<forall>r\<in>set rows. float_gt (dist_of r) meters"
  shows "nearby meters (with_distance rows (map dist_of rows)) = []"
proof -
  have "\<not> float_le (snd (snd x)) meters" if "x \<in> set (with_distance rows (map dist_of rows))" for x
  proof -
    obtain i r d where x: "x = (i, r, d)" by (cases x) auto
    with that have "r \<in> set rows" "d = dist_of r"
      using with_distance_mem[of i r d rows dist_of] by auto
    with assms x show ?thesis by (simp add: float_gt_not_le)
  qed
  then show ?thesis by (simp add: nearby_filter filter_empty_conv)
qed

lemma nearby_nonempty:
  assumes "r \<in> set rows" and "float_le (dist_of r) meters"
  shows "nearby meters (with_distance rows (map dist_of rows)) \<noteq> []"
proof -
  from with_distance_all[OF assms(1), of dist_of] obtain i where
    "(i, r, dist_of r) \<in> set (with_distance rows (map dist_of rows))" ..
  with assms(2) have "\<exists>x\<in>set (with_distance rows (map dist_of rows)). float_le (snd (snd x)) meters"
    by force
  then show ?thesis
    by (simp add: nearby_filter filter_empty_conv)
qed



lemma float_arg_unparseable:
  "args k = Some s \<Longrightarrow> py_float ext s = None \<Longrightarrow>
     float_arg ext (args k) = Inl (ValueError ''could not convert string to float'')"
  by (simp add: float_arg_def)

lemma float_arg_parseable:
  "args k = Some s \<Longrightarrow> py_float ext s = Some x \<Longrightarrow> float_arg ext (args k) = Inr x"
  by (simp add: float_arg_def)

lemma load_without_shapefile:
  "shapefile fs = None \<Longrightarrow> load_metro_data ext fs s = s\<lparr>stdout := stdout s @ [ShapefileNotFound]\<rparr>"
  by (simp add: load_metro_data_def print_def)

lemma load_with_shapefile:
  "shapefile fs \<noteq> None \<Longrightarrow> metro_data (load_metro_data ext fs s) \<noteq> None"
  by (auto simp: load_metro_data_def Let_def)

lemma startswith_iff: "startswith p s \<longleftrightarrow> (\<exists>suf. s = p @ suf)"
  by (induction p s rule: startswith.induct) auto

lemma str_in_iff: "str_in p s \<longleftrightarrow> (\<exists>pre suf. s = pre @ p @ suf)"
proof (induction s)
  case Nil
  show ?case by auto
next
  case (Cons c cs)
  show ?case
  proof
    assume "str_in p (c # cs)"
    then consider "startswith p (c # cs)" | "str_in p cs" by auto
    then show "\<exists>pre suf. c # cs = pre @ p @ suf"
    proof cases
      case 1
      then obtain suf where "c # cs = p @ suf" by (auto simp: startswith_iff)
      then have "c # cs = [] @ p @ suf" by simp
      then show ?thesis by blast
    next
      case 2
      with Cons.IH obtain pre suf where "cs = pre @ p @ suf" by blast
      then have "c # cs = (c # pre) @ p @ suf" by simp
      then show ?thesis by blast
    qed
  next
    assume "\<exists>pre suf. c # cs = pre @ p @ suf"
    then obtain pre suf where e: "c # cs = pre @ p @ suf" by blast
    show "str_in p (c # cs)"
    proof (cases pre)
      case Nil
      with e have "startswith p (c # cs)" by (auto simp: startswith_iff)
      then show ?thesis by simp
    next
      case (Cons a pre')
      with e have "cs = pre' @ p @ suf" by simp
      with Cons.IH have "str_in p cs" by blast
      then show ?thesis by simp
    qed
  qed
qed

lemma matches_target_iff:
  "matches_target targets name \<longleftrightarrow> (\<exists>t\<in>set targets. str_in (target_main_of t) (lower name))"
  by (induction targets) (auto simp: Let_def)

lemma set_read_targets:
  "set (read_targets lines acc) =
     set acc \<union> {strip l |l. l \<in> set lines \<and> strip l \<noteq> [] \<and> strip l \<noteq> ''Other'' \<and> strip l \<noteq> ''Rural''}"
proof (induction lines arbitrary: acc)
  case Nil
  show ?case by simp
next
  case (Cons l ls)
  show ?case
    unfolding read_targets.simps Let_def Cons.IH
    by auto
qed

lemma find_none: "(\<forall>y\<in>set xs. \<not> P y) \<Longrightarrow> find P xs = None"
  by (induction xs) simp_all

lemma find_unique:
  assumes "x \<in> set xs" and "P x" and "\<forall>y\<in>set xs. P y \<longrightarrow> y = x"
  shows "find P xs = Some x"
  using assms
proof (induction xs)
  case Nil
  then show ?case by simp
next
  case (Cons a xs)
  show ?case
  proof (cases "P a")
    case True
    with Cons.prems(3) have "a = x" by simp
    with True show ?thesis by simp
  next
    case False
    with Cons.prems have "x \<in> set xs" by auto
    moreover have "\<forall>y\<in>set xs. P y \<longrightarrow> y = x" using Cons.prems(3) by simp
    ultimately have "find P xs = Some x" using Cons.IH Cons.prems(2) by blast
    with False show ?thesis by simp
  qed
qed

lemma scan_parts_two:
  assumes "strip part = p" and "length p = 2" and "isupper p"
  shows "scan_parts order (part # parts) = Some p"
  using assms by (simp add: Let_def)

lemma scan_parts_skip:
  assumes s: "strip part = p" and n: "\<not> (length p = 2 \<and> isupper p)"
    and f: "\<forall>s\<in>set order. \<not> str_in s p"
  shows "scan_parts order (part # parts) = scan_parts order parts"
proof -
  have fnd: "find (\<lambda>state. str_in state p) order = None"
    using f by (rule find_none)
  from n have n': "(length p = 2 \<and> isupper p) = False" by simp
  show ?thesis
    by (simp only: scan_parts.simps Let_def s fnd n' if_False option.case)
qed

lemma scan_parts_hit:
  assumes s: "strip part = p" and n: "\<not> (length p = 2 \<and> isupper p)"
    and x: "x \<in> set order" "str_in x p" "\<forall>s\<in>set order. str_in s p \<longrightarrow> s = x"
  shows "scan_parts order (part # parts) = Some x"
proof -
  have fnd: "find (\<lambda>state. str_in state p) order = Some x"
    using x by (rule find_unique)
  from n have n': "(length p = 2 \<and> isupper p) = False" by simp
  show ?thesis
    by (simp only: scan_parts.simps Let_def s fnd n' if_False option.case)
qed

lemmas str_eval = strip_def is_space_def isupper_def ascii_uppercase_def ascii_lowercase_def

section \<open>Claims\<close>

text \<open>
  C1. A query with valid parameters, against loaded data, whose point lies in a region
  with an excluded state: the containing region is the first row, in load order, whose
  geometry contains the point (rows before it do not contain it), and the code extracted
  from its name is a member of \<^const>\<open>EXCLUDED_STATES\<close>. The response is then status 200
  with exactly the keys \<^verbatim>\<open>excluded\<close> (true), \<^verbatim>\<open>excluded_state\<close> (the extracted code),
  \<^verbatim>\<open>within_range\<close> and \<^verbatim>\<open>message\<close>: no \<^verbatim>\<open>nearest_metro\<close>, \<^verbatim>\<open>is_inside_metro\<close> or
  \<^verbatim>\<open>all_nearby_metros\<close>. It is the same whatever the distance and nearest-point
  operations would compute, or whether they would raise: they are not consulted.
\<close>

theorem excluded_short_circuit:
  assumes lat: "float_arg ext (args ''lat'') = Inr lat"
    and lon: "float_arg ext (args ''lon'') = Inr lon"
    and maxd: "float_arg_default ext (args ''max_distance'') 50 = Inr max_distance_miles"
    and pt: "project_point ext (lon, lat) = Inr pt"
    and before: "\<forall>r\<in>set before. contains ext (geometry r) pt = Inr False"
    and inside: "contains ext (geometry region) pt = Inr True"
    and code: "state_from_name (set_iter ext) (NAME region) = Some code"
    and excl: "code \<in> EXCLUDED_STATES"
  shows "\<forall>dist' near'.
           check_proximity (ext\<lparr>distance := dist', nearest_points := near'\<rparr>)
             (Some (before @ region # after)) args =
           (200, JObj [(''excluded'', JBool True),
                       (''excluded_state'', JStr code),
                       (''within_range'', JBool False),
                       (''message'', JStr (''We do not lend in '' @ code))])"
proof (intro allI)
  fix dist' :: "'a \<Rightarrow> 'b \<Rightarrow> py_exn + real"
    and near' :: "pyfloat \<times> pyfloat \<Rightarrow> 'a \<Rightarrow> py_exn + real \<times> real"
  let ?ext = "ext\<lparr>distance := dist', nearest_points := near'\<rparr>"
  let ?md = "Some (before @ region # after)"
  have a1: "float_arg ?ext (args ''lat'') = Inr lat"
    using lat by (simp add: float_arg_frame)
  have a2: "float_arg ?ext (args ''lon'') = Inr lon"
    using lon by (simp add: float_arg_frame)
  have a3: "float_arg_default ?ext (args ''max_distance'') 50 = Inr max_distance_miles"
    using maxd by (simp add: float_arg_default_frame)
  have "scan_rows ?ext pt (before @ region # after) =
          Inr (state_from_name (set_iter ?ext) (NAME region))"
    by (rule scan_rows_first) (use before inside in simp_all)
  then have st: "get_state_from_coords ?ext ?md lat lon = Some code"
    using pt code by (simp add: get_state_from_coords_def get_state_try_def and_then_Inr)
  have ex: "code \<noteq> [] \<and> is_excluded_state (Some code)"
    using excl EXCLUDED_nonempty[OF excl] by (simp add: is_excluded_state_def)
  have "check_proximity_try ?ext ?md args = Inr (200, excluded_json code)"
    unfolding check_proximity_try_def a1 a2 a3 and_then_Inr Let_def
    using st ex by simp
  then show "check_proximity ?ext ?md args =
           (200, JObj [(''excluded'', JBool True),
                       (''excluded_state'', JStr code),
                       (''within_range'', JBool False),
                       (''message'', JStr (''We do not lend in '' @ code))])"
    by (simp add: check_proximity_def handlers_def excluded_json_def)
qed

text \<open>
  An instance: the point is inside the Miami metro, the second row of three, and the
  distance operation of this instance raises whenever it is called.
\<close>

theorem excluded_short_circuit_witness:
  "contains (demo_ext (inside_in [0]) (miles_table [])) (geometry miami)
       (Finite (-80.19), Finite 25.76) = Inr True
   \<and> distance (demo_ext (inside_in [0]) (miles_table [])) (geometry miami)
       (Finite (-80.19), Finite 25.76) = Inl (OtherException ''distance failed'')
   \<and> state_from_name literal_order (NAME miami) = Some ''FL''
   \<and> ''FL'' \<in> EXCLUDED_STATES
   \<and> check_proximity (demo_ext (inside_in [0]) (miles_table []))
       (Some [austin, miami, phoenix]) (query ''25.76'' ''-80.19'' None) =
     (200, JObj [(''excluded'', JBool True),
                 (''excluded_state'', JStr ''FL''),
                 (''within_range'', JBool False),
                 (''message'', JStr ''We do not lend in FL'')])"
proof -
  let ?E = "demo_ext (inside_in [0]) (miles_table [])"
  let ?args = "query ''25.76'' ''-80.19'' None"
  have h1: "float_arg ?E (?args ''lat'') = Inr (Finite 25.76)"
    by (simp add: float_arg_def query_def demo_ext_def demo_float_def)
  have h2: "float_arg ?E (?args ''lon'') = Inr (Finite (-80.19))"
    by (simp add: float_arg_def query_def demo_ext_def demo_float_def)
  have h3: "float_arg_default ?E (?args ''max_distance'') 50 = Inr (Finite 50)"
    by (simp add: float_arg_default_def query_def)
  have h4: "project_point ?E (Finite (-80.19), Finite 25.76) = Inr (Finite (-80.19), Finite 25.76)"
    by (simp add: demo_ext_def)
  have h5: "\<forall>r\<in>set [austin]. contains ?E (geometry r) (Finite (-80.19), Finite 25.76) = Inr False"
    by (simp add: demo_ext_def inside_in_def austin_def)
  have h6: "contains ?E (geometry miami) (Finite (-80.19), Finite 25.76) = Inr True"
    by (simp add: demo_ext_def inside_in_def miami_def)
  have h7: "state_from_name (set_iter ?E) (NAME miami) = Some ''FL''"
    by (simp add: demo_ext_def miami_def state_from_name_def replace_char_def strip_def
        is_space_def isupper_def ascii_uppercase_def ascii_lowercase_def literal_order_def)
  have h8: "''FL'' \<in> EXCLUDED_STATES"
    by (simp add: EXCLUDED_STATES_def)
  have "check_proximity (?E\<lparr>distance := distance ?E, nearest_points := nearest_points ?E\<rparr>)
          (Some ([austin] @ miami # [phoenix])) ?args =
        (200, JObj [(''excluded'', JBool True),
                    (''excluded_state'', JStr ''FL''),
                    (''within_range'', JBool False),
                    (''message'', JStr (''We do not lend in '' @ ''FL''))])"
    using excluded_short_circuit [OF h1 h2 h3 h4 h5 h6 h7 h8] by blast
  moreover have "distance ?E (geometry miami) (Finite (-80.19), Finite 25.76)
      = Inl (OtherException ''distance failed'')"
    by (simp add: demo_ext_def miles_table_def)
  ultimately show ?thesis
    using h6 h7 h8 by (simp add: demo_ext_def)
qed

text \<open>
  Only the first containing row is consulted (the loop ends at \<^verbatim>\<open>break\<close>): where two
  loaded polygons overlap and the point is in both, a later row with an excluded state
  does not exclude the query.
\<close>

lemma only_the_first_containing_row_is_consulted:
  "contains (demo_ext (inside_in [0, 1]) (miles_table [(0, 0), (1, 0)])) (geometry austin)
       (Finite (-80.19), Finite 25.76) = Inr True
   \<and> contains (demo_ext (inside_in [0, 1]) (miles_table [(0, 0), (1, 0)])) (geometry miami)
       (Finite (-80.19), Finite 25.76) = Inr True
   \<and> get_state_from_coords (demo_ext (inside_in [0, 1]) (miles_table [(0, 0), (1, 0)]))
       (Some [austin, miami]) (Finite 25.76) (Finite (-80.19)) = Some ''TX''
   \<and> json_get ''excluded''
        (snd (check_proximity (demo_ext (inside_in [0, 1]) (miles_table [(0, 0), (1, 0)]))
           (Some [austin, miami]) (query ''25.76'' ''-80.19'' None))) = None"
  by (simp add: demo_defs)

text \<open>
  C2. The extraction of lines 35 to 46, run on three names, for every order in which the
  set \<^verbatim>\<open>EXCLUDED_STATES\<close> may be iterated. The two names of the specification give
  \<^verbatim>\<open>FL\<close> and \<^verbatim>\<open>OR\<close>. On \<^verbatim>\<open>FLINT, MI\<close> the result is \<^verbatim>\<open>FL\<close>: the part \<^verbatim>\<open>FLINT\<close> is not two
  characters long, and the loop that the source's comment calls a check against full
  state names runs over all of \<^verbatim>\<open>EXCLUDED_STATES\<close>, whose member \<^verbatim>\<open>FL\<close> occurs in
  \<^verbatim>\<open>FLINT\<close>; the part \<^verbatim>\<open>MI\<close> is never reached.
\<close>

theorem abbreviation_inside_a_part_is_returned:
  assumes "set order = EXCLUDED_STATES"
  shows "state_from_name order ''FLINT, MI'' = Some ''FL''
       \<and> state_from_name order ''Miami-Fort Lauderdale-Pompano Beach, FL'' = Some ''FL''
       \<and> state_from_name order ''Portland-Vancouver-Hillsboro, OR-WA'' = Some ''OR''"
proof -
  have o: "set order = {''HI'', ''AK'', ''FL'', ''NY'', ''NJ'', ''ND'', ''SD'',
      ''Hawaii'', ''Alaska'', ''Florida'', ''New York'', ''New Jersey'',
      ''North Dakota'', ''South Dakota''}"
    using assms by (simp add: EXCLUDED_STATES_def)
  have "scan_parts order [''FLINT'', '' MI''] = Some ''FL''"
    by (rule scan_parts_hit[where p = "''FLINT''"]) (simp_all add: o str_eval)
  then have a: "state_from_name order ''FLINT, MI'' = Some ''FL''"
    by (simp add: state_from_name_def replace_char_def)
  have "scan_parts order [''Miami'', ''Fort Lauderdale'', ''Pompano Beach'', '' FL'']
          = scan_parts order [''Fort Lauderdale'', ''Pompano Beach'', '' FL'']"
    by (rule scan_parts_skip[where p = "''Miami''"]) (simp_all add: o str_eval)
  also have "\<dots> = scan_parts order [''Pompano Beach'', '' FL'']"
    by (rule scan_parts_skip[where p = "''Fort Lauderdale''"]) (simp_all add: o str_eval)
  also have "\<dots> = scan_parts order ['' FL'']"
    by (rule scan_parts_skip[where p = "''Pompano Beach''"]) (simp_all add: o str_eval)
  also have "\<dots> = Some ''FL''"
    by (rule scan_parts_two) (simp_all add: str_eval)
  finally have b: "state_from_name order ''Miami-Fort Lauderdale-Pompano Beach, FL'' = Some ''FL''"
    by (simp add: state_from_name_def replace_char_def)
  have "scan_parts order [''Portland'', ''Vancouver'', ''Hillsboro'', '' OR'', ''WA'']
          = scan_parts order [''Vancouver'', ''Hillsboro'', '' OR'', ''WA'']"
    by (rule scan_parts_skip[where p = "''Portland''"]) (simp_all add: o str_eval)
  also have "\<dots> = scan_parts order [''Hillsboro'', '' OR'', ''WA'']"
    by (rule scan_parts_skip[where p = "''Vancouver''"]) (simp_all add: o str_eval)
  also have "\<dots> = scan_parts order ['' OR'', ''WA'']"
    by (rule scan_parts_skip[where p = "''Hillsboro''"]) (simp_all add: o str_eval)
  also have "\<dots> = Some ''OR''"
    by (rule scan_parts_two) (simp_all add: str_eval)
  finally have c: "state_from_name order ''Portland-Vancouver-Hillsboro, OR-WA'' = Some ''OR''"
    by (simp add: state_from_name_def replace_char_def)
  from a b c show ?thesis by (intro conjI)
qed

theorem abbreviation_inside_a_part_is_returned_witness:
  "set literal_order = EXCLUDED_STATES
   \<and> state_from_name literal_order ''FLINT, MI'' = Some ''FL''
   \<and> state_from_name literal_order ''Miami-Fort Lauderdale-Pompano Beach, FL'' = Some ''FL''
   \<and> state_from_name literal_order ''Portland-Vancouver-Hillsboro, OR-WA'' = Some ''OR''"
proof -
  have h: "set literal_order = EXCLUDED_STATES"
    by (simp add: literal_order_def EXCLUDED_STATES_def)
  from abbreviation_inside_a_part_is_returned [OF h] h show ?thesis by (intro conjI) simp_all
qed

text \<open>
  The same name as the name of a loaded metro that contains the query point: the query
  is answered as excluded, for Florida.
\<close>

lemma flint_query_is_excluded:
  "check_proximity (demo_ext (inside_in [4]) (miles_table [(4, 0)]))
     (Some [\<lparr>NAME = ''FLINT, MI'', CBSAFP = ''22420'', geometry = 4\<rparr>])
     (query ''30.27'' ''-97.74'' None)
   = (200, JObj [(''excluded'', JBool True),
                 (''excluded_state'', JStr ''FL''),
                 (''within_range'', JBool False),
                 (''message'', JStr ''We do not lend in FL'')])"
  by (simp add: demo_defs)

text \<open>
  \<^verbatim>\<open>isupper()\<close> accepts a part of two characters of which one is an upper-case letter and
  the other is not a letter.
\<close>

lemma uncased_two_character_part_is_returned:
  "state_from_name literal_order ''Area X, X9'' = Some ''X9''"
  by (simp add: state_from_name_def replace_char_def str_eval literal_order_def)

text \<open>
  C3, as the specification states it, fails: a point inside a loaded metro, queried with
  a negative radius, is within the radius of nothing, and the out-of-range response says
  \<^verbatim>\<open>is_inside_metro\<close> false. Here the point is inside the only row (distance 0, state TX,
  not excluded) and \<^verbatim>\<open>max_distance\<close> is \<^verbatim>\<open>-1\<close>.
\<close>

theorem inside_point_negative_radius_counterexample:
  "contains (demo_ext (inside_in [1]) (miles_table [(1, 0)])) (geometry austin)
       (Finite (-97.74), Finite 30.27) = Inr True
   \<and> distance (demo_ext (inside_in [1]) (miles_table [(1, 0)])) (geometry austin)
       (Finite (-97.74), Finite 30.27) = Inr 0
   \<and> get_state_from_coords (demo_ext (inside_in [1]) (miles_table [(1, 0)])) (Some [austin])
       (Finite 30.27) (Finite (-97.74)) = Some ''TX''
   \<and> json_get ''is_inside_metro''
        (snd (check_proximity (demo_ext (inside_in [1]) (miles_table [(1, 0)]))
           (Some [austin]) (query ''30.27'' ''-97.74'' (Some ''-1''))))
      = Some (JBool False)"
  by (simp add: demo_defs)

text \<open>
  A second way to the same answer, with the default radius: the point is inside one row
  and at distance 0 from an earlier row that does not contain it (it lies on that row's
  boundary). \<^verbatim>\<open>idxmin\<close> takes the first row of distance 0, which is not the containing one.
\<close>

lemma inside_point_boundary_tie:
  "contains (demo_ext (inside_in [1]) (miles_table [(1, 0), (2, 0)])) (geometry austin)
       (Finite (-97.74), Finite 30.27) = Inr True
   \<and> contains (demo_ext (inside_in [1]) (miles_table [(1, 0), (2, 0)])) (geometry phoenix)
       (Finite (-97.74), Finite 30.27) = Inr False
   \<and> distance (demo_ext (inside_in [1]) (miles_table [(1, 0), (2, 0)])) (geometry phoenix)
       (Finite (-97.74), Finite 30.27) = Inr 0
   \<and> json_get ''is_inside_metro''
        (snd (check_proximity (demo_ext (inside_in [1]) (miles_table [(1, 0), (2, 0)]))
           (Some [phoenix, austin]) (query ''30.27'' ''-97.74'' None)))
      = Some (JBool False)"
  by (simp add: demo_defs)

text \<open>
  C3, amended. With a radius that is not negative (and not NaN), a point that some loaded
  row contains, and no row touching the point without containing it (every row at
  distance 0 contains it): when the exclusion check does not fire, the response has
  \<^verbatim>\<open>within_range\<close> true, \<^verbatim>\<open>is_inside_metro\<close> true and
  \<^verbatim>\<open>distance_to_edge_miles\<close> 0, and names a row that contains the point. The assumptions
  on the libraries are that distances are not negative, that a geometry containing a
  point is at distance 0 from it, and that the float product of a number that is not
  negative with 1609.34 is not negative.
\<close>

theorem inside_point_reported_inside:
  assumes lat: "float_arg ext (args ''lat'') = Inr lat"
    and lon: "float_arg ext (args ''lon'') = Inr lon"
    and maxd: "float_arg_default ext (args ''max_distance'') 50 = Inr miles"
    and pt: "project_point ext (lon, lat) = Inr pt"
    and dist_ok: "\<forall>r\<in>set rows. distance ext (geometry r) pt = Inr (dist_of r)"
    and cont_ok: "\<forall>r\<in>set rows. contains ext (geometry r) pt = Inr (inside_of r)"
    and near_ok: "\<forall>r\<in>set rows.
        nearest_points ext (lon, lat) (to_crs_4326 ext (geometry r)) = Inr (edge_of r)"
    and not_excl: "\<not> is_excluded_state (get_state_from_coords ext (Some rows) lat lon)"
    and nonneg: "\<forall>r\<in>set rows. 0 \<le> dist_of r"
    and zero: "\<forall>r\<in>set rows. inside_of r \<longrightarrow> dist_of r = 0"
    and no_touch: "\<forall>r\<in>set rows. dist_of r = 0 \<longrightarrow> inside_of r"
    and some: "\<exists>r\<in>set rows. inside_of r"
    and radius: "float_le 0 miles"
    and mul_sign: "\<forall>x. float_le 0 x \<longrightarrow> float_le 0 (float_mul ext x 1609.34)"
  shows "\<exists>r\<in>set rows. inside_of r
         \<and> json_get ''within_range'' (snd (check_proximity ext (Some rows) args))
             = Some (JBool True)
         \<and> json_get ''is_inside_metro'' (snd (check_proximity ext (Some rows) args))
             = Some (JBool True)
         \<and> json_get ''nearest_metro'' (snd (check_proximity ext (Some rows) args))
             = Some (JObj
                 [(''name'', JStr (NAME r)),
                  (''cbsa_code'', JStr (CBSAFP r)),
                  (''distance_to_edge_miles'', JNum 0),
                  (''edge_coords'', JList [JNum (snd (edge_of r)), JNum (fst (edge_of r))])])"
proof -
  let ?frame = "with_distance rows (map dist_of rows)"
  let ?m = "float_mul ext miles 1609.34"
  from some obtain r0 where r0: "r0 \<in> set rows" "inside_of r0" by blast
  then have d0: "dist_of r0 = 0" using zero by simp
  have ne: "rows \<noteq> []" using r0 by auto
  have "float_le (dist_of r0) ?m"
    using radius d0 mul_sign by simp
  with r0(1) have nb: "nearby ?m ?frame \<noteq> []"
    by (rule nearby_nonempty)
  from proximity_eval[OF pt dist_ok cont_ok near_ok ne, of miles ?m]
  obtain i r where g: "r \<in> set rows" "\<forall>r'\<in>set rows. dist_of r \<le> dist_of r'"
    and p: "proximity ext rows lat lon miles ?m =
       Inr (200, JObj [(''within_range'', JBool True),
                    (''is_inside_metro'', JBool (inside_of r)),
                    (''nearest_metro'', JObj
                       [(''name'', JStr (NAME r)),
                        (''cbsa_code'', JStr (CBSAFP r)),
                        (''distance_to_edge_miles'',
                           JNum (if inside_of r then 0 else py_round2 ext (float_div ext (dist_of r) 1609.34))),
                        (''edge_coords'', JList [JNum (snd (edge_of r)), JNum (fst (edge_of r))])]),
                    (''all_nearby_metros'',
                       JList (map (metro_info ext) (nearby ?m ?frame)))])"
    using nb by auto
  have "dist_of r \<le> 0" using g(2) r0(1) d0 by force
  moreover have "0 \<le> dist_of r" using nonneg g(1) by simp
  ultimately have "dist_of r = 0" by simp
  then have ins: "inside_of r" using no_touch g(1) by simp
  have cp: "check_proximity ext (Some rows) args = handlers (proximity ext rows lat lon miles ?m)"
    using lat lon maxd not_excl by (rule check_proximity_not_excluded)
  have "json_get ''within_range'' (snd (check_proximity ext (Some rows) args))
             = Some (JBool True)
         \<and> json_get ''is_inside_metro'' (snd (check_proximity ext (Some rows) args))
             = Some (JBool True)
         \<and> json_get ''nearest_metro'' (snd (check_proximity ext (Some rows) args))
             = Some (JObj
                 [(''name'', JStr (NAME r)),
                  (''cbsa_code'', JStr (CBSAFP r)),
                  (''distance_to_edge_miles'', JNum 0),
                  (''edge_coords'', JList [JNum (snd (edge_of r)), JNum (fst (edge_of r))])])"
    unfolding cp p using ins by (simp add: handlers_def)
  with g(1) ins show ?thesis by blast
qed

theorem inside_point_reported_inside_witness:
  "contains (demo_ext (inside_in [1]) (miles_table [(1, 0), (2, 870)])) (geometry austin)
       (Finite (-97.74), Finite 30.27) = Inr True
   \<and> float_le 0 (Finite 50)
   \<and> json_get ''is_inside_metro''
        (snd (check_proximity (demo_ext (inside_in [1]) (miles_table [(1, 0), (2, 870)]))
           (Some [phoenix, austin]) (query ''30.27'' ''-97.74'' None)))
      = Some (JBool True)
   \<and> json_get ''nearest_metro''
        (snd (check_proximity (demo_ext (inside_in [1]) (miles_table [(1, 0), (2, 870)]))
           (Some [phoenix, austin]) (query ''30.27'' ''-97.74'' None)))
      = Some (JObj
           [(''name'', JStr ''Austin-Round Rock-San Marcos, TX''),
            (''cbsa_code'', JStr ''12420''),
            (''distance_to_edge_miles'', JNum 0),
            (''edge_coords'', JList [JNum 0, JNum 1])])"
proof -
  let ?E = "demo_ext (inside_in [1]) (miles_table [(1, 0), (2, 870)])"
  let ?args = "query ''30.27'' ''-97.74'' None"
  let ?pt = "(Finite (-97.74), Finite 30.27)"
  let ?rows = "[phoenix, austin]"
  let ?dist = "\<lambda>r::nat row. (if geometry r = 1 then 0 else 870) * (1609.34::real)"
  let ?inside = "\<lambda>r::nat row. geometry r = 1"
  let ?edge = "\<lambda>r::nat row. (real (geometry r), 0::real)"
  have h1: "float_arg ?E (?args ''lat'') = Inr (Finite 30.27)"
    by (simp add: float_arg_def query_def demo_ext_def demo_float_def)
  have h2: "float_arg ?E (?args ''lon'') = Inr (Finite (-97.74))"
    by (simp add: float_arg_def query_def demo_ext_def demo_float_def)
  have h3: "float_arg_default ?E (?args ''max_distance'') 50 = Inr (Finite 50)"
    by (simp add: float_arg_default_def query_def)
  have h4: "project_point ?E ?pt = Inr ?pt"
    by (simp add: demo_ext_def)
  have h6: "\<forall>r\<in>set ?rows. distance ?E (geometry r) ?pt = Inr (?dist r)"
    by (simp add: demo_ext_def miles_table_def phoenix_def austin_def)
  have h7: "\<forall>r\<in>set ?rows. contains ?E (geometry r) ?pt = Inr (?inside r)"
    by (simp add: demo_ext_def inside_in_def phoenix_def austin_def)
  have h8: "\<forall>r\<in>set ?rows. nearest_points ?E ?pt (to_crs_4326 ?E (geometry r)) = Inr (?edge r)"
    by (simp add: demo_ext_def)
  have h9: "\<not> is_excluded_state (get_state_from_coords ?E (Some ?rows) (Finite 30.27) (Finite (-97.74)))"
    by (simp add: demo_defs)
  have h10: "\<forall>r\<in>set ?rows. 0 \<le> ?dist r" by simp
  have h11: "\<forall>r\<in>set ?rows. ?inside r \<longrightarrow> ?dist r = 0" by simp
  have h12: "\<forall>r\<in>set ?rows. ?dist r = 0 \<longrightarrow> ?inside r" by simp
  have h13: "\<exists>r\<in>set ?rows. ?inside r" by (simp add: austin_def)
  have h14: "float_le 0 (Finite 50)" by simp
  have h15: "\<forall>x. float_le 0 x \<longrightarrow> float_le 0 (float_mul ?E x 1609.34)"
  proof (intro allI impI)
    fix x :: pyfloat
    assume "float_le 0 x"
    then show "float_le 0 (float_mul ?E x 1609.34)"
      by (cases x) (simp_all add: demo_ext_def)
  qed
  have c: "contains ?E (geometry austin) ?pt = Inr True"
    by (simp add: demo_ext_def inside_in_def austin_def)
  show ?thesis
    using inside_point_reported_inside [OF h1 h2 h3 h4 h6 h7 h8 h9 h10 h11 h12 h13 h14 h15] c
    by (auto simp: phoenix_def austin_def)
qed

text \<open>
  C4, as the specification states it, fails where the exclusion check fires first. Here
  the point is inside the Miami metro, the only row, and \<^verbatim>\<open>max_distance\<close> is \<^verbatim>\<open>-1\<close>: the
  distance 0 to every loaded row exceeds the radius of -1609.34 meters, and the response
  is the excluded one, which reports \<^verbatim>\<open>within_range\<close> false and no nearest metro.
\<close>

theorem excluded_metro_hides_nearest_counterexample:
  "distance (demo_ext (inside_in [0]) (miles_table [(0, 0)])) (geometry miami)
       (Finite (-80.19), Finite 25.76) = Inr 0
   \<and> float_mul (demo_ext (inside_in [0]) (miles_table [(0, 0)])) (Finite (-1)) 1609.34
       = Finite (-1609.34)
   \<and> float_gt 0 (Finite (-1609.34))
   \<and> check_proximity (demo_ext (inside_in [0]) (miles_table [(0, 0)]))
        (Some [miami]) (query ''25.76'' ''-80.19'' (Some ''-1''))
      = (200, JObj [(''excluded'', JBool True),
                    (''excluded_state'', JStr ''FL''),
                    (''within_range'', JBool False),
                    (''message'', JStr ''We do not lend in FL'')])
   \<and> json_get ''nearest_metro''
        (snd (check_proximity (demo_ext (inside_in [0]) (miles_table [(0, 0)]))
           (Some [miami]) (query ''25.76'' ''-80.19'' (Some ''-1'')))) = None"
  by (simp add: demo_defs)

text \<open>
  It fails also on a store without rows, where the condition on the distances holds
  for want of rows: on loaded data without rows (a target list that matches no
  record) \<^verbatim>\<open>idxmin\<close> raises \<^verbatim>\<open>ValueError\<close> on the empty column, and the handler answers
  with the invalid-parameters error.
\<close>

lemma empty_store_is_answered_as_invalid_parameters:
  assumes lat: "float_arg ext (args ''lat'') = Inr lat"
    and lon: "float_arg ext (args ''lon'') = Inr lon"
    and maxd: "float_arg_default ext (args ''max_distance'') 50 = Inr miles"
    and pt: "project_point ext (lon, lat) = Inr pt"
  shows "check_proximity ext (Some []) args =
           (400, JObj [(''error'', JStr ''Invalid parameters. Provide lat, lon as numbers.'')])"
  by (simp add: check_proximity_def check_proximity_try_def lat lon maxd pt and_then_def
      get_state_from_coords_def get_state_try_def proximity_def with_distance_def
      loc_idxmin_def handlers_def)

text \<open>
  The radius in meters is the float product, not the real one. For \<^verbatim>\<open>max_distance=27\<close>
  the real product 27 times 1609.34 is 43452.18 and the float product is the double
  nearest to it, which is larger. A row at a distance of exactly that double exceeds the
  real product and is within range all the same.
\<close>

lemma radius_is_the_rounded_product:
  "27 * 1609.34 < product_27
   \<and> float_mul rounding_ext (Finite 27) 1609.34 = Finite product_27
   \<and> distance rounding_ext (geometry austin) (Finite (-97.74), Finite 30.27) = Inr product_27
   \<and> json_get ''within_range''
        (snd (check_proximity rounding_ext (Some [austin])
           (query ''30.27'' ''-97.74'' (Some ''27''))))
      = Some (JBool True)"
  by (simp add: demo_defs rounding_ext_def rounded_mul_def meters_table_def product_27_def)

text \<open>
  C4, amended. A query with valid parameters against loaded data with at least one row,
  for which the exclusion check does not fire (it does not for a point outside every
  polygon), the geometry operations answering for every row (\<open>dist_of\<close>, \<open>inside_of\<close>,
  \<open>edge_of\<close> name their answers). If the distance to every row exceeds the radius in
  meters, which is the float product of \<^verbatim>\<open>max_distance\<close> and 1609.34, the response is
  status 200 with \<^verbatim>\<open>within_range\<close> false and a \<^verbatim>\<open>nearest_metro\<close> that names a row of least
  distance among all rows, with its name, code, distance in miles rounded to two places,
  and the nearest boundary point as latitude, longitude.
\<close>

theorem out_of_range_reports_global_nearest:
  assumes lat: "float_arg ext (args ''lat'') = Inr lat"
    and lon: "float_arg ext (args ''lon'') = Inr lon"
    and maxd: "float_arg_default ext (args ''max_distance'') 50 = Inr miles"
    and pt: "project_point ext (lon, lat) = Inr pt"
    and ne: "rows \<noteq> []"
    and dist_ok: "\<forall>r\<in>set rows. distance ext (geometry r) pt = Inr (dist_of r)"
    and cont_ok: "\<forall>r\<in>set rows. contains ext (geometry r) pt = Inr (inside_of r)"
    and near_ok: "\<forall>r\<in>set rows.
        nearest_points ext (lon, lat) (to_crs_4326 ext (geometry r)) = Inr (edge_of r)"
    and not_excl: "\<not> is_excluded_state (get_state_from_coords ext (Some rows) lat lon)"
    and far: "\<forall>r\<in>set rows. float_gt (dist_of r) (float_mul ext miles 1609.34)"
  shows "\<exists>r\<in>set rows. (\<forall>r'\<in>set rows. dist_of r \<le> dist_of r') \<and>
           check_proximity ext (Some rows) args =
             (200, JObj
                [(''within_range'', JBool False),
                 (''is_inside_metro'', JBool False),
                 (''nearest_metro'', JObj
                    [(''name'', JStr (NAME r)),
                     (''cbsa_code'', JStr (CBSAFP r)),
                     (''distance_to_edge_miles'', JNum (py_round2 ext (float_div ext (dist_of r) 1609.34))),
                     (''edge_coords'', JList [JNum (snd (edge_of r)), JNum (fst (edge_of r))])]),
                 (''message'', JStr (''Nearest metro is ''
                    @ py_str ext (Finite (py_round2 ext (float_div ext (dist_of r) 1609.34)))
                    @ '' miles away (outside '' @ py_str ext miles @ '' mile range)''))])"
proof -
  have empty: "nearby (float_mul ext miles 1609.34) (with_distance rows (map dist_of rows)) = []"
    using far by (rule nearby_empty)
  from proximity_eval[OF pt dist_ok cont_ok near_ok ne, of miles "float_mul ext miles 1609.34"]
  obtain i r where r: "r \<in> set rows" "\<forall>r'\<in>set rows. dist_of r \<le> dist_of r'"
    and p: "proximity ext rows lat lon miles (float_mul ext miles 1609.34) =
       Inr (200, JObj
                [(''within_range'', JBool False),
                 (''is_inside_metro'', JBool False),
                 (''nearest_metro'', JObj
                    [(''name'', JStr (NAME r)),
                     (''cbsa_code'', JStr (CBSAFP r)),
                     (''distance_to_edge_miles'', JNum (py_round2 ext (float_div ext (dist_of r) 1609.34))),
                     (''edge_coords'', JList [JNum (snd (edge_of r)), JNum (fst (edge_of r))])]),
                 (''message'', JStr (''Nearest metro is ''
                    @ py_str ext (Finite (py_round2 ext (float_div ext (dist_of r) 1609.34)))
                    @ '' miles away (outside '' @ py_str ext miles @ '' mile range)''))])"
    unfolding empty by auto
  have cp: "check_proximity ext (Some rows) args =
          handlers (proximity ext rows lat lon miles (float_mul ext miles 1609.34))"
    using lat lon maxd not_excl by (rule check_proximity_not_excluded)
  show ?thesis
    unfolding cp p using r by (auto simp: handlers_def)
qed

theorem out_of_range_reports_global_nearest_witness:
  "float_gt (870 * 1609.34)
        (float_mul (demo_ext (inside_in []) (miles_table [(1, 200), (2, 870)])) (Finite 50) 1609.34)
   \<and> float_gt (200 * 1609.34)
        (float_mul (demo_ext (inside_in []) (miles_table [(1, 200), (2, 870)])) (Finite 50) 1609.34)
   \<and> check_proximity (demo_ext (inside_in []) (miles_table [(1, 200), (2, 870)]))
        (Some [phoenix, austin]) (query ''30.27'' ''-97.74'' None) =
      (200, JObj
         [(''within_range'', JBool False),
          (''is_inside_metro'', JBool False),
          (''nearest_metro'', JObj
             [(''name'', JStr ''Austin-Round Rock-San Marcos, TX''),
              (''cbsa_code'', JStr ''12420''),
              (''distance_to_edge_miles'', JNum 200),
              (''edge_coords'', JList [JNum 0, JNum 1])]),
          (''message'', JStr ''Nearest metro is # miles away (outside # mile range)'')])"
proof -
  let ?E = "demo_ext (inside_in []) (miles_table [(1, 200), (2, 870)])"
  let ?args = "query ''30.27'' ''-97.74'' None"
  let ?pt = "(Finite (-97.74), Finite 30.27)"
  let ?rows = "[phoenix, austin]"
  let ?dist = "\<lambda>r::nat row. (if geometry r = 1 then 200 else 870) * (1609.34::real)"
  let ?inside = "\<lambda>r::nat row. False"
  let ?edge = "\<lambda>r::nat row. (real (geometry r), 0::real)"
  have h1: "float_arg ?E (?args ''lat'') = Inr (Finite 30.27)"
    by (simp add: float_arg_def query_def demo_ext_def demo_float_def)
  have h2: "float_arg ?E (?args ''lon'') = Inr (Finite (-97.74))"
    by (simp add: float_arg_def query_def demo_ext_def demo_float_def)
  have h3: "float_arg_default ?E (?args ''max_distance'') 50 = Inr (Finite 50)"
    by (simp add: float_arg_default_def query_def)
  have h4: "project_point ?E ?pt = Inr ?pt"
    by (simp add: demo_ext_def)
  have h5: "?rows \<noteq> []" by simp
  have h6: "\<forall>r\<in>set ?rows. distance ?E (geometry r) ?pt = Inr (?dist r)"
    by (simp add: demo_ext_def miles_table_def phoenix_def austin_def)
  have h7: "\<forall>r\<in>set ?rows. contains ?E (geometry r) ?pt = Inr (?inside r)"
    by (simp add: demo_ext_def inside_in_def phoenix_def austin_def)
  have h8: "\<forall>r\<in>set ?rows. nearest_points ?E ?pt (to_crs_4326 ?E (geometry r)) = Inr (?edge r)"
    by (simp add: demo_ext_def)
  have h9: "\<not> is_excluded_state (get_state_from_coords ?E (Some ?rows) (Finite 30.27) (Finite (-97.74)))"
    by (simp add: get_state_from_coords_def get_state_try_def and_then_def demo_ext_def
        inside_in_def phoenix_def austin_def is_excluded_state_def)
  have h10: "\<forall>r\<in>set ?rows. float_gt (?dist r) (float_mul ?E (Finite 50) 1609.34)"
    by (simp add: phoenix_def austin_def demo_ext_def)
  show ?thesis
    using out_of_range_reports_global_nearest [OF h1 h2 h3 h4 h5 h6 h7 h8 h9 h10]
    by (simp add: phoenix_def austin_def demo_ext_def)
qed

text \<open>
  C5, as the specification states it, fails in both directions. With the allow-list entry
  \<^verbatim>\<open>Jacksonville, FL MSA\<close> the rule of the specification keeps the record \<^verbatim>\<open>Jackson, MS\<close>
  (\<^verbatim>\<open>jackson\<close> is a substring of \<^verbatim>\<open>jacksonville\<close>) and \<^verbatim>\<open>matches_target\<close> drops it; with the
  entry \<^verbatim>\<open>Jackson, MS MSA\<close> the rule of the specification drops \<^verbatim>\<open>Jacksonville, FL\<close> and
  \<^verbatim>\<open>matches_target\<close> keeps it.
\<close>

theorem allow_list_direction_counterexample:
  "spec_retained [''Jacksonville, FL MSA''] ''Jackson, MS''
   \<and> \<not> matches_target [''Jacksonville, FL MSA''] ''Jackson, MS''
   \<and> \<not> spec_retained [''Jackson, MS MSA''] ''Jacksonville, FL''
   \<and> matches_target [''Jackson, MS MSA''] ''Jacksonville, FL''"
  by (simp add: spec_retained_def spec_normalise_def target_main_of_def first_field_def
      strip_def is_space_def lower_def lower_char_def ascii_uppercase_def ascii_lowercase_def
      Let_def)

text \<open>
  C5, amended. A record is kept exactly when the main part of some target name occurs in
  the record's lowercased name; the main part of a target is its text before the first
  comma, lowercased and stripped, with every \<^verbatim>\<open>" msa"\<close> removed and stripped again. The
  record's name is only lowercased. The target names are the stripped lines of the list
  that are not empty, \<^verbatim>\<open>Other\<close> or \<^verbatim>\<open>Rural\<close>. With at least one target name the loaded
  frame is the matching records, reprojected; with no target list, or none left, it is all
  records. The record \<^verbatim>\<open>Phoenix-Mesa-Chandler, AZ Metro Statistical Area\<close> is kept for the
  entry \<^verbatim>\<open>Phoenix-Mesa-Chandler, AZ MSA\<close>.
\<close>

theorem allow_list_keeps_names_containing_a_target:
  "(matches_target targets name \<longleftrightarrow>
      (\<exists>t\<in>set targets. \<exists>pre suf. lower name = pre @ target_main_of t @ suf))
   \<and> set (read_targets lines []) =
       {strip l |l. l \<in> set lines \<and> strip l \<noteq> [] \<and> strip l \<noteq> ''Other'' \<and> strip l \<noteq> ''Rural''}
   \<and> (shapefile fs = Some rows \<and> target_metros fs = Some lines \<and> read_targets lines [] \<noteq> [] \<longrightarrow>
        metro_data (load_metro_data ext fs s) =
          Some (frame_to_crs_3857 ext
                  (filter (\<lambda>r. matches_target (read_targets lines []) (NAME r)) rows)))
   \<and> (shapefile fs = Some rows
        \<and> (target_metros fs = None \<or> target_metros fs = Some lines \<and> read_targets lines [] = []) \<longrightarrow>
        metro_data (load_metro_data ext fs s) = Some (frame_to_crs_3857 ext rows))
   \<and> matches_target [''Phoenix-Mesa-Chandler, AZ MSA'']
        ''Phoenix-Mesa-Chandler, AZ Metro Statistical Area''"
proof -
  have a: "matches_target targets name \<longleftrightarrow>
      (\<exists>t\<in>set targets. \<exists>pre suf. lower name = pre @ target_main_of t @ suf)"
    by (simp add: matches_target_iff str_in_iff)
  have b: "set (read_targets lines []) =
       {strip l |l. l \<in> set lines \<and> strip l \<noteq> [] \<and> strip l \<noteq> ''Other'' \<and> strip l \<noteq> ''Rural''}"
    by (simp add: set_read_targets)
  have c: "metro_data (load_metro_data ext fs s) =
          Some (frame_to_crs_3857 ext
                  (filter (\<lambda>r. matches_target (read_targets lines []) (NAME r)) rows))"
    if "shapefile fs = Some rows" "target_metros fs = Some lines" "read_targets lines [] \<noteq> []"
    using that by (simp add: load_metro_data_def Let_def print_def)
  have d: "metro_data (load_metro_data ext fs s) = Some (frame_to_crs_3857 ext rows)"
    if "shapefile fs = Some rows"
       "target_metros fs = None \<or> target_metros fs = Some lines \<and> read_targets lines [] = []"
    using that by (auto simp: load_metro_data_def Let_def print_def)
  have e: "matches_target [''Phoenix-Mesa-Chandler, AZ MSA'']
        ''Phoenix-Mesa-Chandler, AZ Metro Statistical Area''"
    by (simp add: target_main_of_def first_field_def strip_def is_space_def lower_def
        lower_char_def ascii_uppercase_def ascii_lowercase_def Let_def)
  from a b c d e show ?thesis by blast
qed

theorem allow_list_keeps_names_containing_a_target_witness:
  "shapefile census_files = Some [jackson, phoenix, austin]
   \<and> read_targets [''Jacksonville, FL MSA'' @ [CHR 0x0A],
                    ''Phoenix-Mesa-Chandler, AZ MSA'' @ [CHR 0x0A],
                    ''Other'' @ [CHR 0x0A]] []
       = [''Phoenix-Mesa-Chandler, AZ MSA'', ''Jacksonville, FL MSA'']
   \<and> lower (NAME phoenix) = [] @ target_main_of ''Phoenix-Mesa-Chandler, AZ MSA'' @ '', az''
   \<and> matches_target [''Phoenix-Mesa-Chandler, AZ MSA'', ''Jacksonville, FL MSA''] (NAME phoenix)
   \<and> metro_data (load_metro_data (demo_ext (inside_in []) (miles_table [])) census_files fresh)
       = Some [phoenix]"
proof -
  let ?E = "demo_ext (inside_in []) (miles_table [])"
  let ?lines = "[''Jacksonville, FL MSA'' @ [CHR 0x0A],
                 ''Phoenix-Mesa-Chandler, AZ MSA'' @ [CHR 0x0A],
                 ''Other'' @ [CHR 0x0A]]"
  let ?targets = "[''Phoenix-Mesa-Chandler, AZ MSA'', ''Jacksonville, FL MSA'']"
  have h1: "shapefile census_files = Some [jackson, phoenix, austin]"
    by (simp add: census_files_def)
  have h2: "target_metros census_files = Some ?lines"
    by (simp add: census_files_def)
  have rt: "read_targets ?lines [] = ?targets"
    by (simp add: Let_def List.insert_def strip_def is_space_def)
  then have h3: "read_targets ?lines [] \<noteq> []" by simp
  have m: "target_main_of ''Phoenix-Mesa-Chandler, AZ MSA'' = ''phoenix-mesa-chandler''"
    by (simp add: target_main_of_def first_field_def strip_def is_space_def lower_def
        lower_char_def ascii_uppercase_def ascii_lowercase_def Let_def)
  have l: "lower (NAME phoenix) = ''phoenix-mesa-chandler, az''"
    by (simp add: phoenix_def lower_def lower_char_def ascii_uppercase_def ascii_lowercase_def)
  have w: "lower (NAME phoenix) = [] @ target_main_of ''Phoenix-Mesa-Chandler, AZ MSA'' @ '', az''"
    by (simp add: m l)
  note inst = allow_list_keeps_names_containing_a_target
    [of ?targets "NAME phoenix" ?lines census_files "[jackson, phoenix, austin]" ?E fresh]
  have ex: "\<exists>t\<in>set ?targets. \<exists>pre suf. lower (NAME phoenix) = pre @ target_main_of t @ suf"
  proof (rule bexI[where x = "''Phoenix-Mesa-Chandler, AZ MSA''"])
    show "\<exists>pre suf. lower (NAME phoenix)
            = pre @ target_main_of ''Phoenix-Mesa-Chandler, AZ MSA'' @ suf"
      by (rule exI[of _ "[]"], rule exI[of _ "'', az''"]) (rule w)
    show "''Phoenix-Mesa-Chandler, AZ MSA'' \<in> set ?targets" by simp
  qed
  have mt: "matches_target ?targets (NAME phoenix)"
    using inst [THEN conjunct1] ex by (rule iffD2)
  have ld: "metro_data (load_metro_data ?E census_files fresh) =
          Some (frame_to_crs_3857 ?E
                  (filter (\<lambda>r. matches_target (read_targets ?lines []) (NAME r))
                     [jackson, phoenix, austin]))"
    using inst [THEN conjunct2, THEN conjunct2, THEN conjunct1] h1 h2 h3
    by (rule mp [OF _ conjI [OF _ conjI]])
  have f: "filter (\<lambda>r. matches_target ?targets (NAME r)) [jackson, phoenix, austin] = [phoenix]"
    by (simp add: target_main_of_def first_field_def strip_def is_space_def lower_def
        lower_char_def ascii_uppercase_def ascii_lowercase_def Let_def
        jackson_def phoenix_def austin_def)
  have "metro_data (load_metro_data ?E census_files fresh) = Some [phoenix]"
    unfolding ld rt f by (simp add: frame_to_crs_3857_def demo_ext_def)
  with h1 rt w mt show ?thesis by (intro conjI)
qed

text \<open>
  C6. Under the same conditions on the parameters, the store and the libraries: if some
  row is within the radius, the row that \<^verbatim>\<open>idxmin\<close> picks from the filtered frame
  \<^verbatim>\<open>nearby_metros\<close> is the row, with the same label, that \<^verbatim>\<open>idxmin\<close> picks from the whole
  frame (\<^verbatim>\<open>nearest_overall\<close>); it has least distance among all rows, and it is the row
  the within-range response reports as \<^verbatim>\<open>nearest_metro\<close>.
\<close>

theorem within_range_reports_global_nearest:
  assumes lat: "float_arg ext (args ''lat'') = Inr lat"
    and lon: "float_arg ext (args ''lon'') = Inr lon"
    and maxd: "float_arg_default ext (args ''max_distance'') 50 = Inr miles"
    and pt: "project_point ext (lon, lat) = Inr pt"
    and dist_ok: "\<forall>r\<in>set rows. distance ext (geometry r) pt = Inr (dist_of r)"
    and cont_ok: "\<forall>r\<in>set rows. contains ext (geometry r) pt = Inr (inside_of r)"
    and near_ok: "\<forall>r\<in>set rows.
        nearest_points ext (lon, lat) (to_crs_4326 ext (geometry r)) = Inr (edge_of r)"
    and not_excl: "\<not> is_excluded_state (get_state_from_coords ext (Some rows) lat lon)"
    and within: "\<exists>r\<in>set rows. float_le (dist_of r) (float_mul ext miles 1609.34)"
  shows "\<exists>i r.
           loc_idxmin (with_distance rows (map dist_of rows)) = Inr (i, r, dist_of r)
         \<and> loc_idxmin (nearby (float_mul ext miles 1609.34) (with_distance rows (map dist_of rows)))
             = Inr (i, r, dist_of r)
         \<and> r \<in> set rows \<and> (\<forall>r'\<in>set rows. dist_of r \<le> dist_of r')
         \<and> json_get ''within_range'' (snd (check_proximity ext (Some rows) args))
             = Some (JBool True)
         \<and> json_get ''nearest_metro'' (snd (check_proximity ext (Some rows) args))
             = Some (JObj
                 [(''name'', JStr (NAME r)),
                  (''cbsa_code'', JStr (CBSAFP r)),
                  (''distance_to_edge_miles'',
                     JNum (if inside_of r then 0 else py_round2 ext (float_div ext (dist_of r) 1609.34))),
                  (''edge_coords'', JList [JNum (snd (edge_of r)), JNum (fst (edge_of r))])])"
proof -
  let ?frame = "with_distance rows (map dist_of rows)"
  let ?m = "float_mul ext miles 1609.34"
  from within obtain r0 where r0: "r0 \<in> set rows" "float_le (dist_of r0) ?m" by blast
  then have ne: "rows \<noteq> []" by auto
  have nb: "nearby ?m ?frame \<noteq> []"
    using r0 by (rule nearby_nonempty)
  from proximity_eval[OF pt dist_ok cont_ok near_ok ne, of miles ?m]
  obtain i r where g: "loc_idxmin ?frame = Inr (i, r, dist_of r)" "r \<in> set rows"
      "\<forall>r'\<in>set rows. dist_of r \<le> dist_of r'"
    and p: "proximity ext rows lat lon miles ?m =
       Inr (200, JObj [(''within_range'', JBool True),
                    (''is_inside_metro'', JBool (inside_of r)),
                    (''nearest_metro'', JObj
                       [(''name'', JStr (NAME r)),
                        (''cbsa_code'', JStr (CBSAFP r)),
                        (''distance_to_edge_miles'',
                           JNum (if inside_of r then 0 else py_round2 ext (float_div ext (dist_of r) 1609.34))),
                        (''edge_coords'', JList [JNum (snd (edge_of r)), JNum (fst (edge_of r))])]),
                    (''all_nearby_metros'',
                       JList (map (metro_info ext) (nearby ?m ?frame)))])"
    using nb by auto
  have same: "loc_idxmin (nearby ?m ?frame) = Inr (i, r, dist_of r)"
    using loc_idxmin_nearby[OF nb] g(1) by simp
  have cp: "check_proximity ext (Some rows) args = handlers (proximity ext rows lat lon miles ?m)"
    using lat lon maxd not_excl by (rule check_proximity_not_excluded)
  have "json_get ''within_range'' (snd (check_proximity ext (Some rows) args))
             = Some (JBool True)
         \<and> json_get ''nearest_metro'' (snd (check_proximity ext (Some rows) args))
             = Some (JObj
                 [(''name'', JStr (NAME r)),
                  (''cbsa_code'', JStr (CBSAFP r)),
                  (''distance_to_edge_miles'',
                     JNum (if inside_of r then 0 else py_round2 ext (float_div ext (dist_of r) 1609.34))),
                  (''edge_coords'', JList [JNum (snd (edge_of r)), JNum (fst (edge_of r))])])"
    unfolding cp p by (simp add: handlers_def)
  with g same show ?thesis by blast
qed

theorem within_range_reports_global_nearest_witness:
  "float_le (200 * 1609.34)
        (float_mul (demo_ext (inside_in []) (miles_table [(0, 1100), (1, 200), (2, 870)])) (Finite 300) 1609.34)
   \<and> loc_idxmin (nearby
        (float_mul (demo_ext (inside_in []) (miles_table [(0, 1100), (1, 200), (2, 870)])) (Finite 300) 1609.34)
        [(0, phoenix, 870 * 1609.34), (1, austin, 200 * 1609.34), (2, miami, 1100 * 1609.34)])
      = loc_idxmin [(0, phoenix, 870 * 1609.34), (1, austin, 200 * 1609.34), (2, miami, 1100 * 1609.34)]
   \<and> json_get ''nearest_metro''
        (snd (check_proximity (demo_ext (inside_in []) (miles_table [(0, 1100), (1, 200), (2, 870)]))
           (Some [phoenix, austin, miami]) (query ''30.27'' ''-97.74'' (Some ''300''))))
      = Some (JObj
           [(''name'', JStr ''Austin-Round Rock-San Marcos, TX''),
            (''cbsa_code'', JStr ''12420''),
            (''distance_to_edge_miles'', JNum 200),
            (''edge_coords'', JList [JNum 0, JNum 1])])"
proof -
  let ?E = "demo_ext (inside_in []) (miles_table [(0, 1100), (1, 200), (2, 870)])"
  let ?args = "query ''30.27'' ''-97.74'' (Some ''300'')"
  let ?pt = "(Finite (-97.74), Finite 30.27)"
  let ?rows = "[phoenix, austin, miami]"
  let ?dist = "\<lambda>r::nat row.
     (if geometry r = 1 then 200 else if geometry r = 2 then 870 else 1100) * (1609.34::real)"
  let ?inside = "\<lambda>r::nat row. False"
  let ?edge = "\<lambda>r::nat row. (real (geometry r), 0::real)"
  have h1: "float_arg ?E (?args ''lat'') = Inr (Finite 30.27)"
    by (simp add: float_arg_def query_def demo_ext_def demo_float_def)
  have h2: "float_arg ?E (?args ''lon'') = Inr (Finite (-97.74))"
    by (simp add: float_arg_def query_def demo_ext_def demo_float_def)
  have h3: "float_arg_default ?E (?args ''max_distance'') 50 = Inr (Finite 300)"
    by (simp add: float_arg_default_def float_arg_def query_def demo_ext_def demo_float_def)
  have h4: "project_point ?E ?pt = Inr ?pt"
    by (simp add: demo_ext_def)
  have h6: "\<forall>r\<in>set ?rows. distance ?E (geometry r) ?pt = Inr (?dist r)"
    by (simp add: demo_ext_def miles_table_def phoenix_def austin_def miami_def)
  have h7: "\<forall>r\<in>set ?rows. contains ?E (geometry r) ?pt = Inr (?inside r)"
    by (simp add: demo_ext_def inside_in_def phoenix_def austin_def miami_def)
  have h8: "\<forall>r\<in>set ?rows. nearest_points ?E ?pt (to_crs_4326 ?E (geometry r)) = Inr (?edge r)"
    by (simp add: demo_ext_def)
  have h9: "\<not> is_excluded_state (get_state_from_coords ?E (Some ?rows) (Finite 30.27) (Finite (-97.74)))"
    by (simp add: get_state_from_coords_def get_state_try_def and_then_def demo_ext_def
        inside_in_def phoenix_def austin_def miami_def is_excluded_state_def)
  have h10: "\<exists>r\<in>set ?rows. float_le (?dist r) (float_mul ?E (Finite 300) 1609.34)"
    by (simp add: phoenix_def austin_def miami_def demo_ext_def)
  have frame: "with_distance ?rows (map ?dist ?rows) =
      [(0, phoenix, 870 * 1609.34), (1, austin, 200 * 1609.34), (2, miami, 1100 * 1609.34)]"
    by (simp add: with_distance_def upt_rec phoenix_def austin_def miami_def)
  have le: "float_le (200 * 1609.34) (float_mul ?E (Finite 300) 1609.34)"
    by (simp add: demo_ext_def)
  from within_range_reports_global_nearest [OF h1 h2 h3 h4 h6 h7 h8 h9 h10]
  obtain i r where
    a: "loc_idxmin (with_distance ?rows (map ?dist ?rows)) = Inr (i, r, ?dist r)"
    and b: "loc_idxmin (nearby (float_mul ?E (Finite 300) 1609.34) (with_distance ?rows (map ?dist ?rows)))
             = Inr (i, r, ?dist r)"
    and c: "json_get ''nearest_metro'' (snd (check_proximity ?E (Some ?rows) ?args))
             = Some (JObj
                 [(''name'', JStr (NAME r)),
                  (''cbsa_code'', JStr (CBSAFP r)),
                  (''distance_to_edge_miles'',
                     JNum (if ?inside r then 0 else py_round2 ?E (float_div ?E (?dist r) 1609.34))),
                  (''edge_coords'', JList [JNum (snd (?edge r)), JNum (fst (?edge r))])])"
    by blast
  have "loc_idxmin [(0, phoenix, 870 * 1609.34), (1, austin, 200 * 1609.34), (2, miami, 1100 * 1609.34)]
          = Inr (1, austin, 200 * 1609.34)"
    by (simp add: loc_idxmin_def)
  with a have r: "r = austin" unfolding frame by simp
  show ?thesis
    using a b c le unfolding frame r
    by (simp add: austin_def demo_ext_def)
qed

text \<open>
  C7, as the specification states it, fails: a query without \<^verbatim>\<open>max_distance\<close> is not an
  error. The default 50 is used and the query is answered.
\<close>

theorem missing_radius_counterexample:
  "query ''30.27'' ''-97.74'' None ''max_distance'' = None
   \<and> check_proximity (demo_ext (inside_in []) (miles_table [(1, 20), (2, 870)]))
        (Some [phoenix, austin]) (query ''30.27'' ''-97.74'' None)
     = (200, JObj
         [(''within_range'', JBool True),
          (''is_inside_metro'', JBool False),
          (''nearest_metro'', JObj
             [(''name'', JStr ''Austin-Round Rock-San Marcos, TX''),
              (''cbsa_code'', JStr ''12420''),
              (''distance_to_edge_miles'', JNum 20),
              (''edge_coords'', JList [JNum 0, JNum 1])]),
          (''all_nearby_metros'', JList
             [JObj [(''name'', JStr ''Austin-Round Rock-San Marcos, TX''),
                    (''distance_miles'', JNum 20),
                    (''cbsa_code'', JStr ''12420'')]])])"
  by (simp add: demo_defs)

text \<open>
  A value that \<^verbatim>\<open>float\<close> accepts passes, finite or not: with \<^verbatim>\<open>max_distance=inf\<close> every row
  is within range.
\<close>

lemma infinite_radius_accepted:
  "demo_float ''inf'' = Some PosInf
   \<and> fst (check_proximity (demo_ext (inside_in []) (miles_table [(1, 200), (2, 870)]))
        (Some [phoenix, austin]) (query ''30.27'' ''-97.74'' (Some ''inf''))) = 200
   \<and> json_get ''within_range''
        (snd (check_proximity (demo_ext (inside_in []) (miles_table [(1, 200), (2, 870)]))
           (Some [phoenix, austin]) (query ''30.27'' ''-97.74'' (Some ''inf''))))
      = Some (JBool True)"
  by (simp add: demo_defs)

text \<open>
  A query without \<^verbatim>\<open>lat\<close> raises \<^verbatim>\<open>TypeError\<close> in \<^verbatim>\<open>float(None)\<close>, which the handler for
  \<^verbatim>\<open>ValueError\<close> does not catch: the response is status 500 with the exception's text.
\<close>

lemma missing_lat_is_internal_error:
  assumes "args ''lat'' = None"
  shows "check_proximity ext md args =
           (500, JObj [(''error'', JStr (''float() argument must be a string or a real number, not ''
                  @ [CHR 0x27] @ ''NoneType'' @ [CHR 0x27]))])"
  using assms
  by (simp add: check_proximity_def check_proximity_try_def float_arg_def and_then_def handlers_def)

text \<open>
  C7, amended. If the first of \<^verbatim>\<open>lat\<close>, \<^verbatim>\<open>lon\<close>, \<^verbatim>\<open>max_distance\<close>, in this order, that
  \<^verbatim>\<open>float\<close> does not convert is a string that is present and that \<^verbatim>\<open>float\<close> rejects, the
  response is status 400 with the invalid-parameters message, whatever the store. A
  missing \<^verbatim>\<open>max_distance\<close> is not an error: the query is answered as with
  \<^verbatim>\<open>max_distance=50\<close>.
\<close>

theorem unparseable_parameter_is_invalid:
  assumes "(args ''lat'' = Some s1 \<and> py_float ext s1 = None)
         \<or> (args ''lat'' = Some s1 \<and> py_float ext s1 = Some x1
             \<and> args ''lon'' = Some s2 \<and> py_float ext s2 = None)
         \<or> (args ''lat'' = Some s1 \<and> py_float ext s1 = Some x1
             \<and> args ''lon'' = Some s2 \<and> py_float ext s2 = Some x2
             \<and> args ''max_distance'' = Some s3 \<and> py_float ext s3 = None)"
  shows "check_proximity ext md args =
           (400, JObj [(''error'', JStr ''Invalid parameters. Provide lat, lon as numbers.'')])
         \<and> (py_float ext fifty = Some (Finite 50) \<longrightarrow>
              check_proximity ext md2 (args2(''max_distance'' := None))
                = check_proximity ext md2 (args2(''max_distance'' := Some fifty)))"
proof -
  have "check_proximity_try ext md args = Inl (ValueError ''could not convert string to float'')"
    using assms
    by (auto simp: check_proximity_try_def float_arg_default_def float_arg_unparseable
        float_arg_parseable and_then_Inr and_then_Inl)
  then have a: "check_proximity ext md args =
           (400, JObj [(''error'', JStr ''Invalid parameters. Provide lat, lon as numbers.'')])"
    by (simp add: check_proximity_def handlers_def)
  have b: "check_proximity ext md2 (args2(''max_distance'' := None))
                = check_proximity ext md2 (args2(''max_distance'' := Some fifty))"
    if "py_float ext fifty = Some (Finite 50)"
    using that
    by (simp add: check_proximity_def check_proximity_try_def float_arg_default_def float_arg_def)
  from a b show ?thesis by blast
qed

theorem unparseable_parameter_is_invalid_witness:
  "query ''30.27'' ''abc'' None ''lat'' = Some ''30.27''
   \<and> demo_float ''30.27'' = Some (Finite 30.27)
   \<and> query ''30.27'' ''abc'' None ''lon'' = Some ''abc''
   \<and> demo_float ''abc'' = None
   \<and> check_proximity (demo_ext (inside_in []) (miles_table [(1, 20), (2, 870)]))
        (Some [phoenix, austin]) (query ''30.27'' ''abc'' None)
     = (400, JObj [(''error'', JStr ''Invalid parameters. Provide lat, lon as numbers.'')])
   \<and> demo_float ''50'' = Some (Finite 50)
   \<and> check_proximity (demo_ext (inside_in []) (miles_table [(1, 20), (2, 870)]))
        (Some [phoenix, austin]) (query ''30.27'' ''-97.74'' None)
     = check_proximity (demo_ext (inside_in []) (miles_table [(1, 20), (2, 870)]))
        (Some [phoenix, austin]) (query ''30.27'' ''-97.74'' (Some ''50''))"
proof -
  let ?E = "demo_ext (inside_in []) (miles_table [(1, 20), (2, 870)])"
  let ?args = "query ''30.27'' ''abc'' None"
  have g1: "?args ''lat'' = Some ''30.27''" by (simp add: query_def)
  have g2: "demo_float ''30.27'' = Some (Finite 30.27)" by (simp add: demo_float_def)
  have g3: "?args ''lon'' = Some ''abc''" by (simp add: query_def)
  have g4: "demo_float ''abc'' = None" by (simp add: demo_float_def)
  have g5: "demo_float ''50'' = Some (Finite 50)" by (simp add: demo_float_def)
  have pf: "py_float ?E = demo_float" by (simp add: demo_ext_def)
  have h: "(?args ''lat'' = Some ''30.27'' \<and> py_float ?E ''30.27'' = None)
         \<or> (?args ''lat'' = Some ''30.27'' \<and> py_float ?E ''30.27'' = Some (Finite 30.27)
             \<and> ?args ''lon'' = Some ''abc'' \<and> py_float ?E ''abc'' = None)
         \<or> (?args ''lat'' = Some ''30.27'' \<and> py_float ?E ''30.27'' = Some (Finite 30.27)
             \<and> ?args ''lon'' = Some ''abc'' \<and> py_float ?E ''abc'' = Some x2
             \<and> ?args ''max_distance'' = Some s3 \<and> py_float ?E s3 = None)"
    for x2 s3
    using g1 g2 g3 g4 by (simp add: demo_ext_def)
  have q1: "(query ''30.27'' ''-97.74'' None)(''max_distance'' := None) = query ''30.27'' ''-97.74'' None"
    by (auto simp: query_def)
  have q2: "(query ''30.27'' ''-97.74'' None)(''max_distance'' := Some ''50'')
              = query ''30.27'' ''-97.74'' (Some ''50'')"
    by (auto simp: query_def)
  from unparseable_parameter_is_invalid [where fifty = "''50''"
      and ?md2.0 = "Some [phoenix, austin]" and ?args2.0 = "query ''30.27'' ''-97.74'' None", OF h]
  show ?thesis
    using g1 g2 g3 g4 g5 pf by (simp add: q1 q2)
qed

text \<open>
  C8, as the specification states it, fails: after a load that found no shapefile the
  data is still \<^verbatim>\<open>None\<close>, so the next call of \<^verbatim>\<open>ensure_metro_data_loaded\<close> loads again. Two
  calls without the shapefile print the warning twice; a second call made once the files
  exist loads them.
\<close>

theorem failed_load_is_attempted_again_counterexample:
  "metro_data (ensure_metro_data_loaded (demo_ext (inside_in []) (miles_table [])) no_files fresh)
     = None
   \<and> stdout (ensure_metro_data_loaded (demo_ext (inside_in []) (miles_table [])) no_files
        (ensure_metro_data_loaded (demo_ext (inside_in []) (miles_table [])) no_files fresh))
     = [ShapefileNotFound, ShapefileNotFound]
   \<and> ensure_metro_data_loaded (demo_ext (inside_in []) (miles_table [])) census_files
        (ensure_metro_data_loaded (demo_ext (inside_in []) (miles_table [])) no_files fresh)
     = \<lparr>metro_data = Some [phoenix],
        stdout = [ShapefileNotFound, LoadingData, LoadedTargets 2, Filtered 1]\<rparr>"
  by (simp add: ensure_metro_data_loaded_def load_metro_data_def print_def fresh_def no_files_def
      census_files_def Let_def List.insert_def strip_def is_space_def target_main_of_def
      first_field_def lower_def lower_char_def ascii_uppercase_def ascii_lowercase_def
      frame_to_crs_3857_def demo_ext_def jackson_def phoenix_def austin_def)

text \<open>
  C8, amended. \<^verbatim>\<open>ensure_metro_data_loaded\<close> calls \<^verbatim>\<open>load_metro_data\<close> exactly when
  \<^verbatim>\<open>metro_data\<close> is \<^verbatim>\<open>None\<close>. A load that finds the shapefile sets \<^verbatim>\<open>metro_data\<close>, and every
  later call is a no-op, whatever the files then are. A load that does not find the
  shapefile prints the warning and changes nothing else, so after it each further call
  attempts the load again.
\<close>

theorem ensure_loads_while_unloaded:
  "(metro_data s \<noteq> None \<longrightarrow> ensure_metro_data_loaded ext fs s = s)
   \<and> (metro_data s = None \<longrightarrow> ensure_metro_data_loaded ext fs s = load_metro_data ext fs s)
   \<and> (shapefile fs \<noteq> None \<longrightarrow>
         metro_data (load_metro_data ext fs s) \<noteq> None
         \<and> ensure_metro_data_loaded ext fs2 (load_metro_data ext fs s) = load_metro_data ext fs s)
   \<and> (shapefile fs = None \<longrightarrow>
         load_metro_data ext fs s = s\<lparr>stdout := stdout s @ [ShapefileNotFound]\<rparr>)
   \<and> (shapefile fs = None \<and> metro_data s = None \<longrightarrow>
         ensure_metro_data_loaded ext fs2 (ensure_metro_data_loaded ext fs s)
           = load_metro_data ext fs2 (s\<lparr>stdout := stdout s @ [ShapefileNotFound]\<rparr>))"
  by (auto simp: ensure_metro_data_loaded_def load_without_shapefile load_with_shapefile)

theorem ensure_loads_while_unloaded_witness:
  "metro_data fresh = None
   \<and> shapefile no_files = None
   \<and> shapefile census_files \<noteq> None
   \<and> ensure_metro_data_loaded (demo_ext (inside_in []) (miles_table [])) no_files fresh
       = fresh\<lparr>stdout := stdout fresh @ [ShapefileNotFound]\<rparr>
   \<and> ensure_metro_data_loaded (demo_ext (inside_in []) (miles_table [])) census_files
        (ensure_metro_data_loaded (demo_ext (inside_in []) (miles_table [])) no_files fresh)
       = load_metro_data (demo_ext (inside_in []) (miles_table [])) census_files
           (fresh\<lparr>stdout := stdout fresh @ [ShapefileNotFound]\<rparr>)
   \<and> ensure_metro_data_loaded (demo_ext (inside_in []) (miles_table [])) no_files
        (load_metro_data (demo_ext (inside_in []) (miles_table [])) census_files fresh)
       = load_metro_data (demo_ext (inside_in []) (miles_table [])) census_files fresh"
proof -
  let ?E = "demo_ext (inside_in []) (miles_table [])"
  have h1: "metro_data fresh = None" by (simp add: fresh_def)
  have h2: "shapefile no_files = None" by (simp add: no_files_def)
  have h3: "shapefile census_files \<noteq> None" by (simp add: census_files_def)
  from ensure_loads_while_unloaded [of fresh ?E no_files census_files] h1 h2
  have a: "ensure_metro_data_loaded ?E no_files fresh = load_metro_data ?E no_files fresh"
    and b: "load_metro_data ?E no_files fresh = fresh\<lparr>stdout := stdout fresh @ [ShapefileNotFound]\<rparr>"
    and c: "ensure_metro_data_loaded ?E census_files (ensure_metro_data_loaded ?E no_files fresh)
              = load_metro_data ?E census_files (fresh\<lparr>stdout := stdout fresh @ [ShapefileNotFound]\<rparr>)"
    by blast+
  from ensure_loads_while_unloaded [of fresh ?E census_files no_files] h3
  have d: "ensure_metro_data_loaded ?E no_files (load_metro_data ?E census_files fresh)
             = load_metro_data ?E census_files fresh"
    by blast
  from a b have ab: "ensure_metro_data_loaded ?E no_files fresh
       = fresh\<lparr>stdout := stdout fresh @ [ShapefileNotFound]\<rparr>"
    by (rule trans)
  from h1 h2 h3 ab c d show ?thesis by blast
qed



text \<open>
  C10. A response that carries the key \<^verbatim>\<open>excluded\<close> at all carries it as true and
  reports \<^verbatim>\<open>within_range\<close> false, for every store, every parameter list and every
  behaviour of the libraries; also for a point inside a metro or within the radius.
\<close>

theorem excluded_reports_out_of_range:
  assumes "json_get ''excluded'' (snd (check_proximity ext md args)) \<noteq> None"
  shows "json_get ''excluded'' (snd (check_proximity ext md args)) = Some (JBool True)
         \<and> json_get ''within_range'' (snd (check_proximity ext md args)) = Some (JBool False)"
proof (cases "check_proximity_try ext md args")
  case (Inl e)
  with assms show ?thesis
    by (simp add: check_proximity_def handlers_error)
next
  case (Inr resp)
  with assms have "json_get ''excluded'' (snd resp) \<noteq> None"
    by (simp add: check_proximity_def handlers_def)
  from try_excluded_shape[OF Inr this] obtain state where "resp = (200, excluded_json state)" ..
  with Inr show ?thesis
    by (simp add: check_proximity_def handlers_def excluded_json_def)
qed

theorem excluded_reports_out_of_range_witness:
  "json_get ''excluded''
     (snd (check_proximity (demo_ext (inside_in [0]) (miles_table [(0, 0), (1, 1100), (2, 1900)]))
        (Some [austin, miami, phoenix]) (query ''25.76'' ''-80.19'' (Some ''300'')))) \<noteq> None
   \<and> json_get ''within_range''
     (snd (check_proximity (demo_ext (inside_in [0]) (miles_table [(0, 0), (1, 1100), (2, 1900)]))
        (Some [austin, miami, phoenix]) (query ''25.76'' ''-80.19'' (Some ''300'')))) = Some (JBool False)
   \<and> json_get ''within_range''
     (snd (handlers (proximity (demo_ext (inside_in [0]) (miles_table [(0, 0), (1, 1100), (2, 1900)]))
        [austin, miami, phoenix] (Finite 25.76) (Finite (-80.19)) (Finite 300)

        (float_mul (demo_ext (inside_in [0]) (miles_table [(0, 0), (1, 1100), (2, 1900)])) (Finite 300) 1609.34)))) = Some (JBool True)"
proof -
  let ?E = "demo_ext (inside_in [0]) (miles_table [(0, 0), (1, 1100), (2, 1900)])"
  let ?r = "check_proximity ?E (Some [austin, miami, phoenix]) (query ''25.76'' ''-80.19'' (Some ''300''))"
  have h: "json_get ''excluded'' (snd ?r) \<noteq> None"
    by (simp add: demo_defs)
  have p: "json_get ''within_range''
     (snd (handlers (proximity ?E [austin, miami, phoenix] (Finite 25.76) (Finite (-80.19)) (Finite 300)
        (float_mul ?E (Finite 300) 1609.34)))) = Some (JBool True)"
    by (simp add: demo_defs)
  from excluded_reports_out_of_range [OF h] h p show ?thesis
    by blast
qed

end
